theory Spec2Isabelle
  imports Complex_Main
begin

section \<open>Numbers, errors and the NumPy primitives the filters use\<close>

text \<open>
  The filters of \<^verbatim>\<open>padasip/filters/base_filter.py\<close> and \<^verbatim>\<open>padasip/filters/gngd.py\<close>
  compute with float64 arrays.  The embedding idealises float64 to \<^typ>\<open>real\<close>: a 1-dimensional
  array is a list of reals, a 2-dimensional array the list of its rows.  Python is dynamically
  typed, and the constructors receive their numeric arguments as they come, so a scalar argument
  keeps the tag that tells an \<^verbatim>\<open>int\<close> from a \<^verbatim>\<open>float\<close>: \<^verbatim>\<open>np.zeros(2)\<close> succeeds where
  \<^verbatim>\<open>np.zeros(2.0)\<close> raises, while \<^verbatim>\<open>2 == 2.0\<close> holds.
\<close>

type_synonym vec = "real list"
type_synonym mat = "real list list"

datatype pynum = PyInt int | PyFloat real

fun num_val :: "pynum \<Rightarrow> real" where
  "num_val (PyInt i) = of_int i"
| "num_val (PyFloat r) = r"

text \<open>
  Every exception of the source is a value.  A \<^verbatim>\<open>ValueError\<close> carries its message, which is what
  tells the three errors raised by the filters themselves from those raised inside NumPy.
\<close>

datatype error =
    ValueError string
  | IndexError
  | NameError
  | AttributeError
  | TypeError
  | LinAlgError

abbreviation DimensionMismatch :: error where
  "DimensionMismatch \<equiv> ValueError ''The length of vector d and matrix x must agree.''"

abbreviation ConversionError :: error where
  "ConversionError \<equiv> ValueError ''Impossible to convert x or d to a numpy array''"

abbreviation InvalidWeightSpec :: error where
  "InvalidWeightSpec \<equiv> ValueError ''Impossible to understand the w''"

abbreviation ShapeError :: error where
  "ShapeError \<equiv> ValueError ''shapes not aligned''"

abbreviation BroadcastError :: error where
  "BroadcastError \<equiv> ValueError ''could not broadcast input array''"

abbreviation NegativeDimension :: error where
  "NegativeDimension \<equiv> ValueError ''negative dimensions are not allowed''"

text \<open>\<^verbatim>\<open>np.zeros(k)\<close>: the size must be an integer, and not a negative one.\<close>

fun np_zeros :: "pynum \<Rightarrow> error + vec" where
  "np_zeros (PyInt k) = (if k < 0 then Inl NegativeDimension else Inr (replicate (nat k) 0))"
| "np_zeros (PyFloat r) = Inl TypeError"

text \<open>
  \<^verbatim>\<open>np.random.normal(0, 0.5, k)\<close>: the process-wide generator is the parameter \<open>normal\<close>, which
  gives the samples drawn for a size.
\<close>

fun np_random_normal :: "(nat \<Rightarrow> vec) \<Rightarrow> pynum \<Rightarrow> error + vec" where
  "np_random_normal normal (PyInt k) =
     (if k < 0 then Inl NegativeDimension else Inr (normal (nat k)))"
| "np_random_normal normal (PyFloat r) = Inl TypeError"

text \<open>\<^verbatim>\<open>np.dot\<close> of two 1-dimensional arrays raises when their lengths differ.\<close>

definition np_dot :: "vec \<Rightarrow> vec \<Rightarrow> error + real" where
  "np_dot a b =
     (if length a = length b then Inr (sum_list (map2 (*) a b)) else Inl ShapeError)"

text \<open>
  Broadcasting a 1-dimensional array into a slot of length \<open>k\<close> (a row or a column of a matrix):
  the lengths agree, or the array has one element, which is repeated.
\<close>

definition np_broadcast :: "nat \<Rightarrow> vec \<Rightarrow> error + vec" where
  "np_broadcast k v =
     (if length v = k then Inr v
      else if length v = 1 then Inr (replicate k (hd v))
      else Inl BroadcastError)"

text \<open>The in-place \<^verbatim>\<open>a += b\<close> keeps the shape of \<open>a\<close>; \<open>b\<close> is broadcast into it.\<close>

definition np_iadd :: "vec \<Rightarrow> vec \<Rightarrow> error + vec" where
  "np_iadd a b =
     (case np_broadcast (length a) b of
        Inl err \<Rightarrow> Inl err
      | Inr b' \<Rightarrow> Inr (map2 (+) a b'))"

text \<open>
  \<^verbatim>\<open>np.array(x)\<close> on a list of rows of numbers: NumPy (1.24 and later) raises on rows of
  unequal length, which the bare \<^verbatim>\<open>except\<close> of \<^verbatim>\<open>run\<close> turns into its own
  \<^verbatim>\<open>ValueError\<close>.  A list of numbers always converts.
\<close>

definition rectangular :: "mat \<Rightarrow> bool" where
  "rectangular x = (case x of [] \<Rightarrow> True | x0 # rest \<Rightarrow> list_all (\<lambda>r. length r = length x0) rest)"

text \<open>\<^verbatim>\<open>int(r)\<close> truncates towards zero; \<^verbatim>\<open>xs[:k]\<close> and \<^verbatim>\<open>xs[k:]\<close> count a negative \<open>k\<close> from the end.\<close>

definition py_int :: "real \<Rightarrow> int" where
  "py_int r = (if r < 0 then - \<lfloor>- r\<rfloor> else \<lfloor>r\<rfloor>)"

definition slice_to :: "int \<Rightarrow> 'a list \<Rightarrow> 'a list" where
  "slice_to k xs = (if k < 0 then take (nat (int (length xs) + k)) xs else take (nat k) xs)"

definition slice_from :: "int \<Rightarrow> 'a list \<Rightarrow> 'a list" where
  "slice_from k xs = (if k < 0 then drop (nat (int (length xs) + k)) xs else drop (nat k) xs)"


section \<open>The base class \<^verbatim>\<open>AdaptiveFilter\<close>\<close>

text \<open>
  The attributes set by \<^verbatim>\<open>AdaptiveFilter.__init__\<close>.  \<^verbatim>\<open>w_history\<close> is \<^verbatim>\<open>False\<close> until a
  \<^verbatim>\<open>run\<close> allocates it: \<open>None\<close> here.  A method that mutates the object returns the object
  with its result, and returns it when it raises too: what was assigned before an exception
  stays assigned.
\<close>

record AdaptiveFilter =
  w :: vec
  n :: pynum
  w_history :: "mat option"
  mu :: pynum

datatype weight_spec = WStr string | WSeq "real list"

text \<open>
  \<^verbatim>\<open>init_weights(w, n)\<close>.  \<open>self_n\<close> is the attribute \<^verbatim>\<open>self.n\<close>, read when the size is \<open>-1\<close>;
  it is \<open>None\<close> while the constructor runs, where \<^verbatim>\<open>self.n\<close> is assigned after the weights.
\<close>

definition init_weights :: "(nat \<Rightarrow> vec) \<Rightarrow> pynum option \<Rightarrow> weight_spec \<Rightarrow> pynum \<Rightarrow> error + vec" where
  "init_weights normal self_n wspec sz =
     (case (if num_val sz = - 1 then self_n else Some sz) of
        None \<Rightarrow> Inl AttributeError
      | Some sz' \<Rightarrow>
          (case wspec of
             WStr s \<Rightarrow>
               if s = ''random'' then np_random_normal normal sz'
               else if s = ''zeros'' then np_zeros sz'
               else Inl InvalidWeightSpec
           | WSeq ws \<Rightarrow>
               if real (length ws) = num_val sz' then Inr ws
               else Inl InvalidWeightSpec))"

text \<open>\<^verbatim>\<open>AdaptiveFilter.__init__(self, mu, n, w)\<close>: the learning rate comes first.\<close>

definition AdaptiveFilter_init ::
  "(nat \<Rightarrow> vec) \<Rightarrow> pynum \<Rightarrow> pynum \<Rightarrow> weight_spec \<Rightarrow> error + AdaptiveFilter" where
  "AdaptiveFilter_init normal mu_arg n_arg wspec =
     (case init_weights normal None wspec n_arg of
        Inl err \<Rightarrow> Inl err
      | Inr w0 \<Rightarrow> Inr \<lparr>w = w0, n = n_arg, w_history = None, mu = mu_arg\<rparr>)"

definition predict :: "'a AdaptiveFilter_scheme \<Rightarrow> vec \<Rightarrow> error + real" where
  "predict f x = np_dot (w f) x"

text \<open>
  \<^verbatim>\<open>AdaptiveFilter.adapt\<close>: after \<open>y\<close> and \<open>e\<close> the method evaluates
  \<^verbatim>\<open>learning_rule(self, e, x)\<close>, a look-up of the global name \<^verbatim>\<open>learning_rule\<close>.  The module
  binds \<^verbatim>\<open>np\<close>, \<^verbatim>\<open>get_mean_error\<close>, \<^verbatim>\<open>AdaptiveFilter\<close> and \<^verbatim>\<open>AdaptiveFilterAP\<close> only, and
  no builtin has that name, so the look-up raises \<^verbatim>\<open>NameError\<close> before anything is assigned.
\<close>

definition adapt :: "'a AdaptiveFilter_scheme \<Rightarrow> real \<Rightarrow> vec \<Rightarrow> (error + unit) \<times> 'a AdaptiveFilter_scheme" where
  "adapt f d x =
     (case predict f x of
        Inl err \<Rightarrow> (Inl err, f)
      | Inr y \<Rightarrow> (let e = d - y in (Inl NameError, f)))"

text \<open>
  A learning rule is the method \<^verbatim>\<open>self.learning_rule\<close> of the object's class: it reads and
  assigns attributes and returns the weight delta.  The base class defines none, so \<^verbatim>\<open>run\<close>
  takes it as an optional parameter: \<open>None\<close> is an object whose class has no such method.
  The rule does not assign \<^verbatim>\<open>self.w\<close>; the augmented assignment adds the delta to the weights
  read before the call.
\<close>

type_synonym ('s, 'e, 'x) rule = "'s \<Rightarrow> 'e \<Rightarrow> 'x \<Rightarrow> (error + vec) \<times> 's"

text \<open>\<^verbatim>\<open>self.w_history[k,:] = self.w\<close>: the weights are broadcast into row \<open>k\<close>.\<close>

definition record_weights ::
  "'a AdaptiveFilter_scheme \<Rightarrow> nat \<Rightarrow> (error + unit) \<times> 'a AdaptiveFilter_scheme" where
  "record_weights f k =
     (case w_history f of
        None \<Rightarrow> (Inl TypeError, f)
      | Some h \<Rightarrow>
          (case np_broadcast (length (h ! k)) (w f) of
             Inl err \<Rightarrow> (Inl err, f)
           | Inr row \<Rightarrow> (Inr (), f\<lparr>w_history := Some (h[k := row])\<rparr>)))"

text \<open>
  The body of the adaptation loop of \<^verbatim>\<open>AdaptiveFilter.run\<close> at index \<open>k\<close>, up to and including
  the call of the learning rule: it gives the delta the rule returned.  The loop state is the
  object with the local arrays \<open>y\<close> and \<open>e\<close>.
\<close>

definition run_delta ::
  "('a AdaptiveFilter_scheme, real, vec) rule option \<Rightarrow> vec \<Rightarrow> mat \<Rightarrow> nat \<Rightarrow>
   'a AdaptiveFilter_scheme \<times> vec \<times> vec \<Rightarrow>
   (error + vec) \<times> 'a AdaptiveFilter_scheme \<times> vec \<times> vec" where
  "run_delta lr d x k st =
     (case st of (f, y, e) \<Rightarrow>
        (case record_weights f k of
           (Inl err, f1) \<Rightarrow> (Inl err, f1, y, e)
         | (Inr u, f1) \<Rightarrow>
             (case predict f1 (x ! k) of
                Inl err \<Rightarrow> (Inl err, f1, y, e)
              | Inr yk \<Rightarrow>
                  (let y1 = y[k := yk];
                       e1 = e[k := d ! k - y1 ! k]
                   in case lr of
                        None \<Rightarrow> (Inl AttributeError, f1, y1, e1)
                      | Some rule \<Rightarrow>
                          (case rule f1 (e1 ! k) (x ! k) of
                             (res, f2) \<Rightarrow> (res, f2, y1, e1))))))"

text \<open>The whole body: the delta is added in place to the weights.\<close>

definition run_body ::
  "('a AdaptiveFilter_scheme, real, vec) rule option \<Rightarrow> vec \<Rightarrow> mat \<Rightarrow> nat \<Rightarrow>
   'a AdaptiveFilter_scheme \<times> vec \<times> vec \<Rightarrow>
   (error + unit) \<times> 'a AdaptiveFilter_scheme \<times> vec \<times> vec" where
  "run_body lr d x k st =
     (case run_delta lr d x k st of
        (Inl err, st1) \<Rightarrow> (Inl err, st1)
      | (Inr delta, f2, y1, e1) \<Rightarrow>
          (case np_iadd (w (fst st)) delta of
             Inl err \<Rightarrow> (Inl err, f2, y1, e1)
           | Inr w1 \<Rightarrow> (Inr (), f2\<lparr>w := w1\<rparr>, y1, e1)))"

text \<open>\<^verbatim>\<open>for k in range(N)\<close>: the body at each index in turn, until one raises.\<close>

fun run_loop ::
  "('a AdaptiveFilter_scheme, real, vec) rule option \<Rightarrow> vec \<Rightarrow> mat \<Rightarrow> nat list \<Rightarrow>
   'a AdaptiveFilter_scheme \<times> vec \<times> vec \<Rightarrow>
   (error + unit) \<times> 'a AdaptiveFilter_scheme \<times> vec \<times> vec" where
  "run_loop lr d x [] st = (Inr (), st)"
| "run_loop lr d x (k # ks) st =
     (case run_body lr d x k st of
        (Inl err, st1) \<Rightarrow> (Inl err, st1)
      | (Inr u, st1) \<Rightarrow> run_loop lr d x ks st1)"

text \<open>The deltas the learning rule returned, step by step, in the same loop.\<close>

fun run_deltas ::
  "('a AdaptiveFilter_scheme, real, vec) rule option \<Rightarrow> vec \<Rightarrow> mat \<Rightarrow> nat list \<Rightarrow>
   'a AdaptiveFilter_scheme \<times> vec \<times> vec \<Rightarrow> vec list" where
  "run_deltas lr d x [] st = []"
| "run_deltas lr d x (k # ks) st =
     (case run_delta lr d x k st of
        (Inl err, st1) \<Rightarrow> []
      | (Inr delta, st1) \<Rightarrow>
          delta # (case run_body lr d x k st of (res, st2) \<Rightarrow> run_deltas lr d x ks st2))"

text \<open>
  The deltas of a whole \<^verbatim>\<open>run(d, x)\<close>: the loop starts from the object as \<^verbatim>\<open>run\<close> has
  prepared it, with \<^verbatim>\<open>n\<close> rebound and the history allocated.
\<close>

definition learning_deltas ::
  "('a AdaptiveFilter_scheme, real, vec) rule option \<Rightarrow> 'a AdaptiveFilter_scheme \<Rightarrow> vec \<Rightarrow> mat \<Rightarrow>
   vec list" where
  "learning_deltas lr f d x =
     (case x of
        [] \<Rightarrow> []
      | x0 # rest \<Rightarrow>
          (let N = length x;
               f2 = f\<lparr>n := PyInt (int (length x0)),
                      w_history := Some (replicate N (replicate (length x0) 0))\<rparr>
           in run_deltas lr d x [0..<N] (f2, replicate N 0, replicate N 0)))"

text \<open>
  \<^verbatim>\<open>AdaptiveFilter.run(d, x)\<close>: the length check, the read of \<^verbatim>\<open>x[0]\<close> that rebinds
  \<^verbatim>\<open>self.n\<close>, the conversion, the allocation of \<open>y\<close>, \<open>e\<close> and the history, the loop.
\<close>

definition run ::
  "('a AdaptiveFilter_scheme, real, vec) rule option \<Rightarrow> 'a AdaptiveFilter_scheme \<Rightarrow> vec \<Rightarrow> mat \<Rightarrow>
   (error + vec \<times> vec \<times> mat option) \<times> 'a AdaptiveFilter_scheme" where
  "run lr f d x =
     (let N = length x in
      if length d \<noteq> N then (Inl DimensionMismatch, f)
      else
        (case x of
           [] \<Rightarrow> (Inl IndexError, f)
         | x0 # rest \<Rightarrow>
             (let f1 = f\<lparr>n := PyInt (int (length x0))\<rparr> in
              if \<not> rectangular x then (Inl ConversionError, f1)
              else
                (let y = replicate N 0;
                     e = replicate N 0;
                     f2 = f1\<lparr>w_history := Some (replicate N (replicate (length x0) 0))\<rparr>
                 in case run_loop lr d x [0..<N] (f2, y, e) of
                      (Inl err, f3, y', e') \<Rightarrow> (Inl err, f3)
                    | (Inr u, f3, y', e') \<Rightarrow> (Inr (y', e', w_history f3), f3)))))"

text \<open>\<^verbatim>\<open>for epoch in range(epochs): self.run(d[:Ntrain], x[:Ntrain])\<close>, the results dropped.\<close>

fun train_epochs ::
  "('a AdaptiveFilter_scheme, real, vec) rule option \<Rightarrow> nat \<Rightarrow> 'a AdaptiveFilter_scheme \<Rightarrow> vec \<Rightarrow> mat \<Rightarrow>
   (error + unit) \<times> 'a AdaptiveFilter_scheme" where
  "train_epochs lr 0 f d x = (Inr (), f)"
| "train_epochs lr (Suc k) f d x =
     (case run lr f d x of
        (Inl err, f1) \<Rightarrow> (Inl err, f1)
      | (Inr r, f1) \<Rightarrow> train_epochs lr k f1 d x)"

definition pretrained_run ::
  "('a AdaptiveFilter_scheme, real, vec) rule option \<Rightarrow> 'a AdaptiveFilter_scheme \<Rightarrow> vec \<Rightarrow> mat \<Rightarrow>
   real \<Rightarrow> int \<Rightarrow> (error + vec \<times> vec \<times> mat option) \<times> 'a AdaptiveFilter_scheme" where
  "pretrained_run lr f d x ntrain epochs =
     (let Ntrain = py_int (real (length d) * ntrain) in
      case train_epochs lr (nat epochs) f (slice_to Ntrain d) (slice_to Ntrain x) of
        (Inl err, f1) \<Rightarrow> (Inl err, f1)
      | (Inr u, f1) \<Rightarrow> run lr f1 (slice_from Ntrain d) (slice_from Ntrain x))"


section \<open>The GNGD filter\<close>

record FilterGNGD = AdaptiveFilter +
  eps :: real
  ro :: real
  last_e :: real
  last_x :: vec

text \<open>
  \<^verbatim>\<open>FilterGNGD.__init__(self, n, mu, eps, ro, **kwargs)\<close> calls
  \<^verbatim>\<open>super().__init__(n, mu, **kwargs)\<close>: the two arguments are passed by position, \<open>n\<close> first,
  to a constructor whose first parameter is \<open>mu\<close>.  The keyword arguments carry \<open>w\<close>.
\<close>

definition FilterGNGD_init ::
  "(nat \<Rightarrow> vec) \<Rightarrow> pynum \<Rightarrow> pynum \<Rightarrow> real \<Rightarrow> real \<Rightarrow> weight_spec \<Rightarrow> error + FilterGNGD" where
  "FilterGNGD_init normal n_arg mu_arg eps_arg ro_arg wspec =
     (case AdaptiveFilter_init normal n_arg mu_arg wspec of
        Inl err \<Rightarrow> Inl err
      | Inr b \<Rightarrow>
          (case np_zeros n_arg of
             Inl err \<Rightarrow> Inl err
           | Inr z \<Rightarrow>
               Inr \<lparr>w = w b, n = n b, w_history = w_history b, mu = mu b,
                    eps = eps_arg, ro = ro_arg, last_e = 0, last_x = z\<rparr>))"

text \<open>
  \<^verbatim>\<open>FilterGNGD.learning_rule(e, x)\<close>.  The right-hand side of the assignment to \<^verbatim>\<open>self.eps\<close>
  is evaluated with the old \<^verbatim>\<open>eps\<close>; \<open>nu\<close> reads the new one.
\<close>

definition learning_rule :: "(FilterGNGD, real, vec) rule" where
  "learning_rule f e x =
     (case np_dot x (last_x f) of
        Inl err \<Rightarrow> (Inl err, f)
      | Inr x_lx \<Rightarrow>
          (case np_dot (last_x f) (last_x f) of
             Inl err \<Rightarrow> (Inl err, f)
           | Inr lx_lx \<Rightarrow>
               (let f1 = f\<lparr>eps := eps f - ro f * num_val (mu f) * e * last_e f * x_lx
                                     / (lx_lx + eps f)\<^sup>2\<rparr>
                in case np_dot x x of
                     Inl err \<Rightarrow> (Inl err, f1)
                   | Inr x_x \<Rightarrow>
                       (let nu = num_val (mu f1) / (eps f1 + x_x);
                            f2 = f1\<lparr>last_e := e, last_x := x\<rparr>
                        in (Inr (map (\<lambda>xi. nu * e * xi) x), f2)))))"

text \<open>The GNGD step as the specification words it, on the four quantities it names.\<close>

definition gngd_spec_eps :: "real \<Rightarrow> real \<Rightarrow> real \<Rightarrow> real \<Rightarrow> vec \<Rightarrow> real \<Rightarrow> vec \<Rightarrow> real" where
  "gngd_spec_eps eps_old ro_c mu_c last_e_old last_x_old e x =
     eps_old - ro_c * mu_c * e * last_e_old * (\<Sum>i<length x. x ! i * last_x_old ! i)
               / ((\<Sum>i<length last_x_old. last_x_old ! i * last_x_old ! i) + eps_old)\<^sup>2"

definition gngd_spec_nu :: "real \<Rightarrow> real \<Rightarrow> vec \<Rightarrow> real" where
  "gngd_spec_nu mu_c eps_new x = mu_c / (eps_new + (\<Sum>i<length x. x ! i * x ! i))"

section \<open>The affine-projection filter\<close>

text \<open>
  \<^verbatim>\<open>x_mem\<close> is an \<open>n \<times> order\<close> array, the list of its \<open>n\<close> rows, each of length \<^verbatim>\<open>order\<close>;
  column \<open>j\<close> is what the rows hold at index \<open>j\<close>.  \<^verbatim>\<open>y_mem\<close> and \<^verbatim>\<open>e_mem\<close> are \<^verbatim>\<open>False\<close>
  until the first estimate.
\<close>

record AdaptiveFilterAP = AdaptiveFilter +
  order :: nat
  eps :: real
  x_mem :: mat
  d_mem :: vec
  ide_eps :: mat
  ide :: mat
  y_mem :: "vec option"
  e_mem :: "vec option"

definition column :: "nat \<Rightarrow> mat \<Rightarrow> vec" where
  "column j M = map (\<lambda>r. r ! j) M"

text \<open>The transpose of a matrix of \<open>c\<close> columns, the products and the sum of \<^verbatim>\<open>np.dot\<close> and \<open>+\<close>.\<close>

definition mat_T :: "nat \<Rightarrow> mat \<Rightarrow> mat" where
  "mat_T c M = map (\<lambda>j. column j M) [0..<c]"

definition mat_vec :: "mat \<Rightarrow> vec \<Rightarrow> vec" where
  "mat_vec M v = map (\<lambda>r. sum_list (map2 (*) r v)) M"

definition mat_mul :: "nat \<Rightarrow> mat \<Rightarrow> mat \<Rightarrow> mat" where
  "mat_mul c A B = map (\<lambda>r. mat_vec (mat_T c B) r) A"

definition mat_add :: "mat \<Rightarrow> mat \<Rightarrow> mat" where
  "mat_add A B = map2 (map2 (+)) A B"

definition np_identity :: "nat \<Rightarrow> mat" where
  "np_identity k = map (\<lambda>i. map (\<lambda>j. if i = j then 1 else 0) [0..<k]) [0..<k]"

text \<open>
  \<^verbatim>\<open>AdaptiveFilterAP.__init__(*args, order, eps, **kwargs)\<close> hands its positional arguments to
  the base constructor as they are, so they are \<open>(mu, n, w)\<close>.  \<^verbatim>\<open>np.zeros((self.n, order))\<close>
  needs two integers, neither negative.
\<close>

definition AdaptiveFilterAP_init ::
  "(nat \<Rightarrow> vec) \<Rightarrow> pynum \<Rightarrow> pynum \<Rightarrow> weight_spec \<Rightarrow> int \<Rightarrow> real \<Rightarrow> error + AdaptiveFilterAP" where
  "AdaptiveFilterAP_init normal mu_arg n_arg wspec order_arg eps_arg =
     (case AdaptiveFilter_init normal mu_arg n_arg wspec of
        Inl err \<Rightarrow> Inl err
      | Inr b \<Rightarrow>
          (case n b of
             PyFloat r \<Rightarrow> Inl TypeError
           | PyInt rows \<Rightarrow>
               if rows < 0 \<or> order_arg < 0 then Inl NegativeDimension
               else
                 Inr \<lparr>w = w b, n = n b, w_history = w_history b, mu = mu b,
                      order = nat order_arg, eps = eps_arg,
                      x_mem = replicate (nat rows) (replicate (nat order_arg) 0),
                      d_mem = replicate (nat order_arg) 0,
                      ide_eps = map (map (\<lambda>a. eps_arg * a)) (np_identity (nat order_arg)),
                      ide = np_identity (nat order_arg),
                      y_mem = None, e_mem = None\<rparr>))"

text \<open>
  \<^verbatim>\<open>x_mem[:, 1:] = x_mem[:, :-1]\<close> and \<^verbatim>\<open>d_mem[1:] = d_mem[:-1]\<close>: every entry moves one place
  up, the last is dropped, the first stays (NumPy reads the overlapping source before it
  writes).
\<close>

definition shift1 :: "'a list \<Rightarrow> 'a list" where
  "shift1 r = take 1 r @ butlast r"

text \<open>
  The four assignments that open both \<^verbatim>\<open>AdaptiveFilterAP.adapt\<close> (with \<open>x\<close>, \<open>d\<close>) and the loop
  body of \<^verbatim>\<open>AdaptiveFilterAP.run\<close> (with \<^verbatim>\<open>x[k]\<close>, \<^verbatim>\<open>d[k]\<close>), the same text in both.  Column
  \<open>0\<close> does not exist when \<^verbatim>\<open>order\<close> is \<open>0\<close>; the input is broadcast into the column.
\<close>

definition update_mem ::
  "'a AdaptiveFilterAP_scheme \<Rightarrow> real \<Rightarrow> vec \<Rightarrow> (error + unit) \<times> 'a AdaptiveFilterAP_scheme" where
  "update_mem f d x =
     (let f1 = f\<lparr>x_mem := map shift1 (x_mem f)\<rparr> in
      if order f1 = 0 then (Inl IndexError, f1)
      else
        (case np_broadcast (length (x_mem f1)) x of
           Inl err \<Rightarrow> (Inl err, f1)
         | Inr xb \<Rightarrow>
             (let f2 = f1\<lparr>x_mem := map2 (\<lambda>r a. r[0 := a]) (x_mem f1) xb\<rparr>;
                  f3 = f2\<lparr>d_mem := shift1 (d_mem f2)\<rparr>;
                  f4 = f3\<lparr>d_mem := (d_mem f3)[0 := d]\<rparr>
              in (Inr (), f4))))"

text \<open>
  \<^verbatim>\<open>y_mem = np.dot(x_mem.T, w)\<close> and \<^verbatim>\<open>e_mem = d_mem - y_mem\<close>, again the same text in both
  methods.  The product raises when the weights are not as many as the rows of \<^verbatim>\<open>x_mem\<close>.
\<close>

definition estimate ::
  "'a AdaptiveFilterAP_scheme \<Rightarrow> (error + vec \<times> vec) \<times> 'a AdaptiveFilterAP_scheme" where
  "estimate f =
     (if length (w f) \<noteq> length (x_mem f) then (Inl ShapeError, f)
      else
        (let ym = mat_vec (mat_T (order f) (x_mem f)) (w f);
             f1 = f\<lparr>y_mem := Some ym\<rparr>;
             em = map2 (-) (d_mem f1) ym;
             f2 = f1\<lparr>e_mem := Some em\<rparr>
         in (Inr (ym, em), f2)))"

text \<open>
  \<^verbatim>\<open>np.linalg.solve\<close> belongs to the numeric library, not to the filters: it is the parameter
  \<open>solve\<close>, which gives the solution of \<open>A \<cdot> z = B\<close> or raises.
\<close>

type_synonym solver = "mat \<Rightarrow> mat \<Rightarrow> error + mat"

definition adapt_AP ::
  "solver \<Rightarrow> 'a AdaptiveFilterAP_scheme \<Rightarrow> real \<Rightarrow> vec \<Rightarrow>
   (error + unit) \<times> 'a AdaptiveFilterAP_scheme" where
  "adapt_AP solve f d x =
     (case update_mem f d x of
        (Inl err, f1) \<Rightarrow> (Inl err, f1)
      | (Inr u, f1) \<Rightarrow>
          (case estimate f1 of
             (Inl err, f2) \<Rightarrow> (Inl err, f2)
           | (Inr (ym, em), f2) \<Rightarrow>
               (let dw_part1 = mat_add (mat_mul (order f2) (mat_T (order f2) (x_mem f2)) (x_mem f2))
                                       (ide_eps f2)
                in case solve dw_part1 (ide f2) of
                     Inl err \<Rightarrow> (Inl err, f2)
                   | Inr dw_part2 \<Rightarrow>
                       (let dw = mat_vec (x_mem f2) (mat_vec dw_part2 em)
                        in (Inr (), f2\<lparr>w := map2 (+) (w f2) (map (\<lambda>a. num_val (mu f2) * a) dw)\<rparr>)))))"

text \<open>
  The loop body of \<^verbatim>\<open>AdaptiveFilterAP.run\<close> at index \<open>k\<close>.  Its last statement is
  \<^verbatim>\<open>self.w += self.learning_rule(self.e_mem, self.x_mem)\<close>; neither \<^verbatim>\<open>AdaptiveFilterAP\<close> nor
  its base class defines that method, so it is the optional parameter \<open>lr\<close>, as in the base
  class.
\<close>

definition run_body_AP ::
  "('a AdaptiveFilterAP_scheme, vec, mat) rule option \<Rightarrow> vec \<Rightarrow> mat \<Rightarrow> nat \<Rightarrow>
   'a AdaptiveFilterAP_scheme \<times> vec \<times> vec \<Rightarrow>
   (error + unit) \<times> 'a AdaptiveFilterAP_scheme \<times> vec \<times> vec" where
  "run_body_AP lr d x k st =
     (case st of (f, y, e) \<Rightarrow>
        (case record_weights f k of
           (Inl err, f1) \<Rightarrow> (Inl err, f1, y, e)
         | (Inr u, f1) \<Rightarrow>
             (case update_mem f1 (d ! k) (x ! k) of
                (Inl err, f2) \<Rightarrow> (Inl err, f2, y, e)
              | (Inr u, f2) \<Rightarrow>
                  (case estimate f2 of
                     (Inl err, f3) \<Rightarrow> (Inl err, f3, y, e)
                   | (Inr (ym, em), f3) \<Rightarrow>
                       (let y1 = y[k := ym ! 0];
                            e1 = e[k := em ! 0]
                        in case lr of
                             None \<Rightarrow> (Inl AttributeError, f3, y1, e1)
                           | Some rule \<Rightarrow>
                               (case rule f3 em (x_mem f3) of
                                  (Inl err, f4) \<Rightarrow> (Inl err, f4, y1, e1)
                                | (Inr delta, f4) \<Rightarrow>
                                    (case np_iadd (w f3) delta of
                                       Inl err \<Rightarrow> (Inl err, f4, y1, e1)
                                     | Inr w1 \<Rightarrow> (Inr (), f4\<lparr>w := w1\<rparr>, y1, e1))))))))"

fun run_loop_AP ::
  "('a AdaptiveFilterAP_scheme, vec, mat) rule option \<Rightarrow> vec \<Rightarrow> mat \<Rightarrow> nat list \<Rightarrow>
   'a AdaptiveFilterAP_scheme \<times> vec \<times> vec \<Rightarrow>
   (error + unit) \<times> 'a AdaptiveFilterAP_scheme \<times> vec \<times> vec" where
  "run_loop_AP lr d x [] st = (Inr (), st)"
| "run_loop_AP lr d x (k # ks) st =
     (case run_body_AP lr d x k st of
        (Inl err, st1) \<Rightarrow> (Inl err, st1)
      | (Inr u, st1) \<Rightarrow> run_loop_AP lr d x ks st1)"

definition run_AP ::
  "('a AdaptiveFilterAP_scheme, vec, mat) rule option \<Rightarrow> 'a AdaptiveFilterAP_scheme \<Rightarrow> vec \<Rightarrow> mat \<Rightarrow>
   (error + vec \<times> vec \<times> mat option) \<times> 'a AdaptiveFilterAP_scheme" where
  "run_AP lr f d x =
     (let N = length x in
      if length d \<noteq> N then (Inl DimensionMismatch, f)
      else
        (case x of
           [] \<Rightarrow> (Inl IndexError, f)
         | x0 # rest \<Rightarrow>
             (let f1 = f\<lparr>n := PyInt (int (length x0))\<rparr> in
              if \<not> rectangular x then (Inl ConversionError, f1)
              else
                (let y = replicate N 0;
                     e = replicate N 0;
                     f2 = f1\<lparr>w_history := Some (replicate N (replicate (length x0) 0))\<rparr>
                 in case run_loop_AP lr d x [0..<N] (f2, y, e) of
                      (Inl err, f3, y', e') \<Rightarrow> (Inl err, f3)
                    | (Inr u, f3, y', e') \<Rightarrow> (Inr (y', e', w_history f3), f3)))))"

text \<open>A sequence of calls of \<^verbatim>\<open>adapt\<close>, one per sample, that ends at the first call that raises.\<close>

fun adapt_seq ::
  "solver \<Rightarrow> 'a AdaptiveFilterAP_scheme \<Rightarrow> vec \<Rightarrow> mat \<Rightarrow>
   (error + unit) \<times> 'a AdaptiveFilterAP_scheme" where
  "adapt_seq solve f (dk # d) (xk # x) =
     (case adapt_AP solve f dk xk of
        (Inl err, f1) \<Rightarrow> (Inl err, f1)
      | (Inr u, f1) \<Rightarrow> adapt_seq solve f1 d x)"
| "adapt_seq solve f d x = (Inr (), f)"

text \<open>
  The same calls when the caller goes on after a call that raised: the object after the last of
  them.
\<close>

fun adapt_calls ::
  "solver \<Rightarrow> 'a AdaptiveFilterAP_scheme \<Rightarrow> (real \<times> vec) list \<Rightarrow> 'a AdaptiveFilterAP_scheme" where
  "adapt_calls solve f [] = f"
| "adapt_calls solve f ((dk, xk) # cs) = adapt_calls solve (snd (adapt_AP solve f dk xk)) cs"

text \<open>
  Modelled from the spec: the \<^verbatim>\<open>learning_rule\<close> method of the affine-projection filter, which
  the source files do not contain.  Section 4.4 asks that the delta computation
  \<open>x_mem \<cdot> (z \<cdot> e_mem)\<close> of \<^verbatim>\<open>adapt\<close> be this filter's learning rule, so that \<^verbatim>\<open>run\<close> and
  \<^verbatim>\<open>adapt\<close> make the same update \<open>w \<leftarrow> w + mu\<cdot>dw\<close>; the rule assigns nothing.
\<close>

definition ap_learning_rule :: "solver \<Rightarrow> ('a AdaptiveFilterAP_scheme, vec, mat) rule" where
  "ap_learning_rule solve f em xm =
     (let dw_part1 = mat_add (mat_mul (order f) (mat_T (order f) xm) xm) (ide_eps f)
      in case solve dw_part1 (ide f) of
           Inl err \<Rightarrow> (Inl err, f)
         | Inr dw_part2 \<Rightarrow>
             (Inr (map (\<lambda>a. num_val (mu f) * a) (mat_vec xm (mat_vec dw_part2 em))), f))"

text \<open>
  The shape the constructor gives an affine-projection filter, which no method changes:
  \<^verbatim>\<open>x_mem\<close> has as many rows as there are weights, each of length \<^verbatim>\<open>order\<close>, and \<^verbatim>\<open>d_mem\<close>
  has length \<^verbatim>\<open>order\<close>.
\<close>

definition ap_shape :: "'a AdaptiveFilterAP_scheme \<Rightarrow> bool" where
  "ap_shape f =
     (length (x_mem f) = length (w f) \<and>
      list_all (\<lambda>r. length r = order f) (x_mem f) \<and>
      length (d_mem f) = order f)"


text \<open>The objects left by the calls of \<^verbatim>\<open>adapt\<close> that returned, in order.\<close>

fun adapt_trace ::
  "solver \<Rightarrow> 'a AdaptiveFilterAP_scheme \<Rightarrow> vec \<Rightarrow> mat \<Rightarrow> 'a AdaptiveFilterAP_scheme list" where
  "adapt_trace solve f (dk # d) (xk # x) =
     (case adapt_AP solve f dk xk of
        (Inl err, f1) \<Rightarrow> []
      | (Inr u, f1) \<Rightarrow> f1 # adapt_trace solve f1 d x)"
| "adapt_trace solve f d x = []"

text \<open>The two constant matrices, as the constructor computes them.\<close>

definition ap_consts :: "'a AdaptiveFilterAP_scheme \<Rightarrow> bool" where
  "ap_consts f =
     (ide f = np_identity (order f) \<and>
      ide_eps f = map (map (\<lambda>a. AdaptiveFilterAP.eps f * a)) (np_identity (order f)))"

text \<open>
  The steps of the affine-projection update as the specification words them, entry by entry:
  the window with \<open>x\<close> as column \<open>0\<close> and the old column \<open>j - 1\<close> as column \<open>j\<close>; the targets
  with \<open>d\<close> first; \<open>y_mem = x_mem\<^sup>T \<cdot> w\<close>; \<open>e_mem = d_mem - y_mem\<close>; the matrix
  \<open>x_mem\<^sup>T \<cdot> x_mem + eps \<cdot> I\<close> of the system; \<open>dw = x_mem \<cdot> (z \<cdot> e_mem)\<close>; \<open>w + mu \<cdot> dw\<close>.
\<close>

definition ap_spec_x_mem :: "nat \<Rightarrow> mat \<Rightarrow> vec \<Rightarrow> mat" where
  "ap_spec_x_mem c X x =
     map (\<lambda>i. map (\<lambda>j. if j = 0 then x ! i else X ! i ! (j - 1)) [0..<c]) [0..<length X]"

definition ap_spec_d_mem :: "nat \<Rightarrow> vec \<Rightarrow> real \<Rightarrow> vec" where
  "ap_spec_d_mem c D d = map (\<lambda>j. if j = 0 then d else D ! (j - 1)) [0..<c]"

definition ap_spec_y_mem :: "nat \<Rightarrow> mat \<Rightarrow> vec \<Rightarrow> vec" where
  "ap_spec_y_mem c X wv = map (\<lambda>j. \<Sum>i<length X. X ! i ! j * wv ! i) [0..<c]"

definition ap_spec_e_mem :: "nat \<Rightarrow> vec \<Rightarrow> vec \<Rightarrow> vec" where
  "ap_spec_e_mem c D Y = map (\<lambda>j. D ! j - Y ! j) [0..<c]"

definition ap_spec_system :: "nat \<Rightarrow> mat \<Rightarrow> real \<Rightarrow> mat" where
  "ap_spec_system c X e0 =
     map (\<lambda>i. map (\<lambda>j. (\<Sum>k<length X. X ! k ! i * X ! k ! j) + (if i = j then e0 else 0)) [0..<c])
       [0..<c]"

definition ap_spec_dw :: "nat \<Rightarrow> mat \<Rightarrow> mat \<Rightarrow> vec \<Rightarrow> vec" where
  "ap_spec_dw c X z E =
     map (\<lambda>i. \<Sum>j<c. X ! i ! j * (\<Sum>k<c. z ! j ! k * E ! k)) [0..<length X]"

definition ap_spec_w :: "vec \<Rightarrow> real \<Rightarrow> vec \<Rightarrow> vec" where
  "ap_spec_w wv m dw = map (\<lambda>i. wv ! i + m * dw ! i) [0..<length wv]"

text \<open>
  A solver for the evaluated examples: the exact solution of a system of one or two equations,
  \<^verbatim>\<open>LinAlgError\<close> when its matrix is singular.  The examples use no larger system.
\<close>

definition solve_small :: solver where
  "solve_small A B =
     (case A of
        [[a]] \<Rightarrow>
          (if a = 0 then Inl LinAlgError else Inr (map (map (\<lambda>b. b / a)) B))
      | [[a, b], [c, d]] \<Rightarrow>
          (let det = a * d - b * c in
           if det = 0 then Inl LinAlgError
           else Inr [map2 (\<lambda>p q. (d * p - b * q) / det) (B ! 0) (B ! 1),
                     map2 (\<lambda>p q. (a * q - c * p) / det) (B ! 0) (B ! 1)])
      | _ \<Rightarrow> Inl LinAlgError)"

text \<open>Concrete objects used to evaluate the methods.\<close>

definition no_random :: "nat \<Rightarrow> vec" where
  "no_random k = replicate k 0"

definition gngd0 :: FilterGNGD where
  "gngd0 = \<lparr>w = [0, 0], n = PyInt 2, w_history = None, mu = PyInt 2,
            FilterGNGD.eps = 1, ro = 1 / 10, last_e = 0, last_x = [0, 0]\<rparr>"

definition ap1 :: AdaptiveFilterAP where
  "ap1 = \<lparr>w = [0], n = PyInt 1, w_history = None, mu = PyFloat (1 / 2),
           order = 1, AdaptiveFilterAP.eps = 1, x_mem = [[0]], d_mem = [0],
           ide_eps = [[1]], ide = [[1]], y_mem = None, e_mem = None\<rparr>"

definition ap2 :: AdaptiveFilterAP where
  "ap2 = \<lparr>w = [0, 0], n = PyInt 2, w_history = None, mu = PyFloat (1 / 2),
           order = 2, AdaptiveFilterAP.eps = 1, x_mem = [[0, 0], [0, 0]], d_mem = [0, 0],
           ide_eps = [[1, 0], [0, 1]], ide = [[1, 0], [0, 1]], y_mem = None, e_mem = None\<rparr>"


section \<open>Construction and the single-sample update\<close>

lemma FilterGNGD_init_fields:
  "FilterGNGD_init normal n_arg mu_arg e0 r0 wspec = Inr f \<Longrightarrow> n f = mu_arg \<and> mu f = n_arg"
  by (auto simp: FilterGNGD_init_def AdaptiveFilter_init_def split: sum.splits)

lemma FilterGNGD_init_explicit:
  "FilterGNGD_init normal n_arg mu_arg e0 r0 (WSeq ws) = Inr f \<Longrightarrow>
     num_val mu_arg = real (length ws)"
  by (auto simp: FilterGNGD_init_def AdaptiveFilter_init_def init_weights_def
      split: sum.splits if_splits option.splits)

text \<open>
  Claim C1 says that for a positive integer \<open>n\<close>, a real \<open>mu\<close> and explicit weights of length
  \<open>n\<close>, constructing a GNGD filter with \<open>(n, mu, w)\<close> succeeds, with \<open>n\<close> weights, filter length
  \<open>n\<close> and learning rate \<open>mu\<close>.  The constructor passes \<open>n\<close> and \<open>mu\<close> to the base class in the
  wrong order, so the weights are checked against \<open>mu\<close>: with \<open>n = 2\<close>, \<open>mu = 0.5\<close> and
  \<open>w = [0, 0]\<close> the construction raises the \<^verbatim>\<open>ValueError\<close> of \<^verbatim>\<open>init_weights\<close>.  The two
  lemmas above say the same in general: a construction that succeeds has the two fields
  exchanged, and with explicit weights it succeeds only when \<open>mu\<close> equals their number.
\<close>

theorem FilterGNGD_init_rejects_length_n:
  "FilterGNGD_init normal (PyInt 2) (PyFloat (1 / 2)) 1 (1 / 10) (WSeq [0, 0])
     = Inl InvalidWeightSpec"
  by (simp add: FilterGNGD_init_def AdaptiveFilter_init_def init_weights_def)

lemma adapt_never_returns: "fst (adapt f d x) \<noteq> Inr u \<and> snd (adapt f d x) = f"
  by (simp add: adapt_def Let_def split: sum.splits)

text \<open>
  Claim C2 says that \<^verbatim>\<open>adapt(d, x)\<close> of a GNGD filter computes \<open>y\<close> and \<open>e\<close>, adds the learning
  rule's delta to the weights and does not raise on well-formed input.  The method calls the
  unbound global name \<^verbatim>\<open>learning_rule\<close> instead of the method \<^verbatim>\<open>self.learning_rule\<close> that
  \<^verbatim>\<open>run\<close> calls: on the filter built by \<^verbatim>\<open>FilterGNGD(2, mu=2, w=[0, 0])\<close>, with \<open>d = 1\<close>
  and \<open>x = [1, 0]\<close>, it raises \<^verbatim>\<open>NameError\<close> and the weights stay as they were.
\<close>

theorem adapt_raises_NameError: "adapt gngd0 1 [1, 0] = (Inl NameError, gngd0)"
  by (simp add: adapt_def predict_def np_dot_def gngd0_def)


section \<open>The GNGD learning rule\<close>

lemma sum_list_map2_nth:
  "length a = length b \<Longrightarrow> sum_list (map2 (*) a b) = (\<Sum>i<length a. a ! i * b ! i)"
  for a b :: "real list"
  by (simp add: sum_list_sum_nth atLeast0LessThan)

text \<open>
  Claim C6: a call of the GNGD learning rule with error \<open>e\<close> and input \<open>x\<close> (of the length of
  the stored \<^verbatim>\<open>last_x\<close>, as \<^verbatim>\<open>np.dot\<close> needs) replaces \<^verbatim>\<open>eps\<close> by
  \<open>eps - ro\<cdot>mu\<cdot>e\<cdot>last_e\<cdot>(x\<cdot>last_x) / (last_x\<cdot>last_x + eps)\<^sup>2\<close>, the old \<^verbatim>\<open>eps\<close> in the
  denominator, returns \<open>nu\<cdot>e\<cdot>x\<close> for \<open>nu = mu / (eps_new + x\<cdot>x)\<close>, and leaves \<open>last_e = e\<close> and
  \<open>last_x = x\<close>; nothing else is assigned.
\<close>

theorem learning_rule_gngd_step:
  assumes "length x = length (last_x f)"
  shows "learning_rule f e x =
     (Inr (map (\<lambda>xi. gngd_spec_nu (num_val (mu f))
                  (gngd_spec_eps (FilterGNGD.eps f) (ro f) (num_val (mu f)) (last_e f) (last_x f) e x)
                  x * e * xi) x),
      f\<lparr>FilterGNGD.eps :=
          gngd_spec_eps (FilterGNGD.eps f) (ro f) (num_val (mu f)) (last_e f) (last_x f) e x,
        last_e := e, last_x := x\<rparr>)"
  using assms
  by (simp add: learning_rule_def np_dot_def Let_def gngd_spec_nu_def gngd_spec_eps_def
      sum_list_map2_nth)

theorem learning_rule_gngd_step_witness:
  "length [1, 0 :: real] = length (last_x gngd0) \<and>
   learning_rule gngd0 1 [1, 0] = (Inr [1, 0], gngd0\<lparr>last_e := 1, last_x := [1, 0]\<rparr>)"
  using learning_rule_gngd_step [of "[1, 0]" gngd0 1]
  by (simp add: gngd0_def gngd_spec_nu_def gngd_spec_eps_def lessThan_Suc numeral_2_eq_2)


section \<open>The batch run\<close>

text \<open>
  Claim C10: \<^verbatim>\<open>run\<close> reads \<^verbatim>\<open>x[0]\<close> after the length check and before the conversion, in the
  base class and in the affine-projection class alike.  On the empty batch the read is out of
  range: the call raises \<^verbatim>\<open>IndexError\<close>, neither of the two errors of \<^verbatim>\<open>run\<close>, and returns
  nothing; when only \<open>x\<close> is empty the length check comes first.
\<close>

theorem run_empty_batch:
  "run lr f [] [] = (Inl IndexError, f) \<and>
   run_AP lr' f' [] [] = (Inl IndexError, f') \<and>
   run lr f (dk # d) [] = (Inl DimensionMismatch, f) \<and>
   run_AP lr' f' (dk # d) [] = (Inl DimensionMismatch, f')"
  by (simp add: run_def run_AP_def)

lemma learning_rule_keeps:
  "learning_rule f e x = (res, f') \<Longrightarrow>
     w f' = w f \<and> w_history f' = w_history f \<and> n f' = n f \<and> mu f' = mu f \<and> ro f' = ro f"
  by (auto simp: learning_rule_def Let_def split: sum.splits)

lemma learning_rule_length:
  "learning_rule f e x = (Inr delta, f') \<Longrightarrow> length delta = length x"
  by (auto simp: learning_rule_def Let_def split: sum.splits)

lemma learning_rule_error:
  "learning_rule f e x = (Inl err, f') \<Longrightarrow> f' = f \<and> err = ShapeError"
  by (auto simp: learning_rule_def Let_def np_dot_def split: sum.splits if_splits)

lemma record_weights_Inr:
  "record_weights f k = (Inr u, f1) \<Longrightarrow>
     \<exists>h row. w_history f = Some h \<and> np_broadcast (length (h ! k)) (w f) = Inr row \<and>
             f1 = f\<lparr>w_history := Some (h[k := row])\<rparr>"
  by (auto simp: record_weights_def split: option.splits sum.splits)

lemma np_broadcast_same: "length v = k \<Longrightarrow> np_broadcast k v = Inr v"
  by (simp add: np_broadcast_def)

lemma run_delta_gngd:
  assumes "run_delta (Some learning_rule) d x k (f, y, e) = (Inr delta, f2, y', e')"
    and "w_history f = Some h" and "length (h ! k) = length (x ! k)"
  shows "w_history f2 = Some (h[k := w f]) \<and> w f2 = w f \<and> length (w f) = length (x ! k) \<and>
         length delta = length (x ! k)"
proof -
  from assms(1) obtain f1 yk where
    rw: "record_weights f k = (Inr (), f1)" and
    pr: "predict f1 (x ! k) = Inr yk" and
    lr: "learning_rule f1 ((e[k := d ! k - y[k := yk] ! k]) ! k) (x ! k) = (Inr delta, f2)"
    by (auto simp: run_delta_def Let_def split: prod.splits sum.splits)
  from record_weights_Inr[OF rw] assms(2) obtain row where
    row: "np_broadcast (length (h ! k)) (w f) = Inr row" "f1 = f\<lparr>w_history := Some (h[k := row])\<rparr>"
    by auto
  from pr row(2) have len: "length (w f) = length (x ! k)"
    by (auto simp: predict_def np_dot_def split: if_splits)
  with row(1) assms(3) have "row = w f"
    by (simp add: np_broadcast_def)
  with row(2) learning_rule_keeps[OF lr] learning_rule_length[OF lr] len show ?thesis
    by simp
qed

lemma run_body_gngd:
  assumes "run_body (Some learning_rule) d x k (f, y, e) = (Inr u, f', y', e')"
    and "w_history f = Some h" and "length (h ! k) = length (x ! k)"
  shows "\<exists>delta f2. run_delta (Some learning_rule) d x k (f, y, e) = (Inr delta, f2, y', e') \<and>
           w_history f' = Some (h[k := w f]) \<and> w f' = map2 (+) (w f) delta \<and>
           length (w f) = length (x ! k)"
proof -
  from assms(1) obtain delta f2 y1 e1 where
    rd: "run_delta (Some learning_rule) d x k (f, y, e) = (Inr delta, f2, y1, e1)"
    by (auto simp: run_body_def split: prod.splits sum.splits)
  from run_delta_gngd[OF rd assms(2,3)] have
    k: "w_history f2 = Some (h[k := w f])" "w f2 = w f" "length (w f) = length (x ! k)"
       "length delta = length (x ! k)" by auto
  then have "np_iadd (w f) delta = Inr (map2 (+) (w f) delta)"
    by (simp add: np_iadd_def np_broadcast_same)
  with assms(1) rd k show ?thesis
    by (auto simp: run_body_def)
qed


lemma run_loop_gngd:
  assumes "run_loop (Some learning_rule) d x [i..<N] (f, y, e) = (Inr u, f', y', e')"
    and "w_history f = Some h" and "length h = N"
    and "\<forall>k<N. length (h ! k) = length (x ! k)"
  shows "\<exists>h'. w_history f' = Some h' \<and> length h' = N \<and> (\<forall>k<i. h' ! k = h ! k) \<and>
           (i < N \<longrightarrow>
              h' ! i = w f \<and>
              (\<forall>k. i \<le> k \<and> Suc k < N \<longrightarrow>
                 h' ! Suc k =
                 map2 (+) (h' ! k) (run_deltas (Some learning_rule) d x [i..<N] (f, y, e) ! (k - i))) \<and>
              w f' = map2 (+) (h' ! (N - 1))
                       (run_deltas (Some learning_rule) d x [i..<N] (f, y, e) ! (N - 1 - i)))"
  using assms
proof (induction "N - i" arbitrary: i f y e h)
  case 0
  then show ?case by simp
next
  case (Suc m)
  let ?lr = "Some learning_rule"
  from Suc.hyps(2) have iN: "i < N" by simp
  then have upt: "[i..<N] = i # [Suc i..<N]" by (rule upt_conv_Cons)
  from Suc.prems(1) obtain f1 y1 e1 where
    body: "run_body ?lr d x i (f, y, e) = (Inr (), f1, y1, e1)" and
    rest: "run_loop ?lr d x [Suc i..<N] (f1, y1, e1) = (Inr u, f', y', e')"
    by (auto simp: upt split: prod.splits sum.splits)
  from Suc.prems(4) iN have wi: "length (h ! i) = length (x ! i)" by simp
  from run_body_gngd[OF body Suc.prems(2) wi] obtain delta f2 where
    rd: "run_delta ?lr d x i (f, y, e) = (Inr delta, f2, y1, e1)" and
    h1: "w_history f1 = Some (h[i := w f])" and
    w1: "w f1 = map2 (+) (w f) delta" and
    lw: "length (w f) = length (x ! i)"
    by auto
  have ds: "run_deltas ?lr d x [i..<N] (f, y, e) =
              delta # run_deltas ?lr d x [Suc i..<N] (f1, y1, e1)"
    by (simp add: upt rd body)
  have m: "m = N - Suc i" using Suc.hyps(2) by simp
  have len1: "length (h[i := w f]) = N" using Suc.prems(3) by simp
  have rows1: "\<forall>k<N. length (h[i := w f] ! k) = length (x ! k)"
    using Suc.prems(3,4) lw iN by (auto simp: nth_list_update)
  from Suc.hyps(1)[OF m rest h1 len1 rows1] obtain h' where
    H: "w_history f' = Some h'" "length h' = N" "\<forall>k<Suc i. h' ! k = h[i := w f] ! k"
       "Suc i < N \<longrightarrow>
          h' ! Suc i = w f1 \<and>
          (\<forall>k. Suc i \<le> k \<and> Suc k < N \<longrightarrow>
             h' ! Suc k =
             map2 (+) (h' ! k) (run_deltas ?lr d x [Suc i..<N] (f1, y1, e1) ! (k - Suc i))) \<and>
          w f' = map2 (+) (h' ! (N - 1))
                   (run_deltas ?lr d x [Suc i..<N] (f1, y1, e1) ! (N - 1 - Suc i))"
    by blast
  have a: "\<forall>k<i. h' ! k = h ! k" using H(3) by (auto simp: nth_list_update)
  have b: "h' ! i = w f" using H(3) iN Suc.prems(3) by (auto simp: nth_list_update)
  have c: "h' ! Suc k = map2 (+) (h' ! k) (run_deltas ?lr d x [i..<N] (f, y, e) ! (k - i))"
    if "i \<le> k" "Suc k < N" for k
  proof (cases "k = i")
    case True
    with H(4) that b w1 ds show ?thesis by simp
  next
    case False
    with that have "Suc i \<le> k" by simp
    with H(4) that have
      "h' ! Suc k = map2 (+) (h' ! k) (run_deltas ?lr d x [Suc i..<N] (f1, y1, e1) ! (k - Suc i))"
      by simp
    moreover from \<open>Suc i \<le> k\<close> have "k - i = Suc (k - Suc i)" by simp
    ultimately show ?thesis by (simp add: ds)
  qed
  have e: "w f' = map2 (+) (h' ! (N - 1)) (run_deltas ?lr d x [i..<N] (f, y, e) ! (N - 1 - i))"
  proof (cases "Suc i < N")
    case True
    then have "N - 1 - i = Suc (N - 1 - Suc i)" by simp
    with H(4) True show ?thesis by (simp add: ds)
  next
    case False
    with iN have N: "N - 1 = i" "[Suc i..<N] = []" by simp_all
    with rest have "f' = f1" by simp
    moreover have "run_deltas ?lr d x [i..<N] (f, y, e) ! (N - 1 - i) = delta"
      by (simp only: ds N diff_self_eq_0 nth_Cons_0)
    ultimately show ?thesis using w1 b N(1) by simp
  qed
  from H(1,2) a b c e show ?case by blast
qed

lemma run_deltas_length:
  "run_loop lr d x ks st = (Inr u, st') \<Longrightarrow> length (run_deltas lr d x ks st) = length ks"
proof (induction ks arbitrary: st)
  case Nil
  then show ?case by simp
next
  case (Cons k ks)
  then show ?case
    by (auto simp: run_body_def split: prod.splits sum.splits)
qed

lemma gngd0_run:
  "run (Some learning_rule) gngd0 [1, 2] [[1, 0], [0, 1]] =
     (Inr ([0, 0], [1, 2], Some [[0, 0], [1, 0]]),
      gngd0\<lparr>w := [1, 2], w_history := Some [[0, 0], [1, 0]], last_e := 2, last_x := [0, 1]\<rparr>)"
  by (simp add: run_def rectangular_def run_body_def run_delta_def record_weights_def
      predict_def np_dot_def np_broadcast_def np_iadd_def learning_rule_def gngd0_def Let_def upt_rec)

text \<open>
  Claim C5: when \<^verbatim>\<open>run(d, x)\<close> of a GNGD filter succeeds on \<open>N \<ge> 1\<close> samples, row \<open>0\<close> of the
  returned history is the weight vector at entry, each later row is the row before it plus the
  delta the learning rule returned at that step, and the final weights are the last row plus the
  last delta.
\<close>

theorem run_weight_history:
  assumes "run (Some learning_rule) f d x = (Inr (y, e, hist), f')"
  shows "\<exists>H. hist = Some H \<and> length H = length x \<and> 0 < length x \<and>
           length (learning_deltas (Some learning_rule) f d x) = length x \<and>
           H ! 0 = w f \<and>
           (\<forall>k. Suc k < length x \<longrightarrow>
              H ! Suc k = map2 (+) (H ! k) (learning_deltas (Some learning_rule) f d x ! k)) \<and>
           w f' = map2 (+) (H ! (length x - 1))
                    (learning_deltas (Some learning_rule) f d x ! (length x - 1))"
proof -
  let ?lr = "Some learning_rule"
  let ?N = "length x"
  from assms obtain x0 rest where x: "x = x0 # rest"
    by (cases x) (auto simp: run_def Let_def split: if_splits)
  from assms have rect: "rectangular x"
    by (auto simp: run_def Let_def x split: if_splits)
  let ?h = "replicate ?N (replicate (length x0) (0::real))"
  let ?f2 = "f\<lparr>n := PyInt (int (length x0)), w_history := Some ?h\<rparr>"
  let ?st = "(?f2, replicate ?N (0::real), replicate ?N (0::real))"
  from assms rect have loop: "run_loop ?lr d x [0..<?N] ?st = (Inr (), f', y, e)"
    and hist: "hist = w_history f'"
    by (auto simp: run_def Let_def x split: if_splits prod.splits sum.splits)
  have ld: "learning_deltas ?lr f d x = run_deltas ?lr d x [0..<?N] ?st"
    by (simp add: learning_deltas_def x Let_def)
  have rows: "\<forall>k<?N. length (?h ! k) = length (x ! k)"
    using rect by (auto simp: rectangular_def x list_all_length nth_Cons split: nat.splits)
  from run_loop_gngd[OF loop _ _ rows] obtain H where
    H: "w_history f' = Some H" "length H = ?N"
       "0 < ?N \<longrightarrow> H ! 0 = w ?f2 \<and>
          (\<forall>k. 0 \<le> k \<and> Suc k < ?N \<longrightarrow>
             H ! Suc k = map2 (+) (H ! k) (run_deltas ?lr d x [0..<?N] ?st ! (k - 0))) \<and>
          w f' = map2 (+) (H ! (?N - 1)) (run_deltas ?lr d x [0..<?N] ?st ! (?N - 1 - 0))"
    by auto
  have pos: "0 < ?N" by (simp add: x)
  from run_deltas_length[OF loop] have "length (learning_deltas ?lr f d x) = ?N"
    by (simp add: ld)
  with H pos hist show ?thesis
    by (simp add: ld)
qed

theorem run_weight_history_witness:
  "run (Some learning_rule) gngd0 [1, 2] [[1, 0], [0, 1]] =
     (Inr ([0, 0], [1, 2], Some [[0, 0], [1, 0]]),
      gngd0\<lparr>w := [1, 2], w_history := Some [[0, 0], [1, 0]], last_e := 2, last_x := [0, 1]\<rparr>) \<and>
   (\<exists>H. Some [[0, 0], [1, 0]] = Some H \<and> length H = length [[1, 0], [0, 1 :: real]] \<and>
      0 < length [[1, 0], [0, 1 :: real]] \<and>
      length (learning_deltas (Some learning_rule) gngd0 [1, 2] [[1, 0], [0, 1]])
        = length [[1, 0], [0, 1 :: real]] \<and>
      H ! 0 = w gngd0 \<and>
      (\<forall>k. Suc k < length [[1, 0], [0, 1 :: real]] \<longrightarrow>
         H ! Suc k = map2 (+) (H ! k)
                       (learning_deltas (Some learning_rule) gngd0 [1, 2] [[1, 0], [0, 1]] ! k)) \<and>
      w (gngd0\<lparr>w := [1, 2], w_history := Some [[0, 0], [1, 0]], last_e := 2, last_x := [0, 1]\<rparr>)
        = map2 (+) (H ! (length [[1, 0], [0, 1 :: real]] - 1))
            (learning_deltas (Some learning_rule) gngd0 [1, 2] [[1, 0], [0, 1]]
               ! (length [[1, 0], [0, 1 :: real]] - 1)))"
  by (rule conjI [OF gngd0_run run_weight_history [OF gngd0_run]])

lemma record_weights_error:
  "record_weights f k = (Inl err, f1) \<Longrightarrow> err = TypeError \<or> err = BroadcastError"
  by (auto simp: record_weights_def np_broadcast_def split: option.splits sum.splits if_splits)

lemma run_body_gngd_error:
  assumes "run_body (Some learning_rule) d x k st = (Inl err, st')"
  shows "err = TypeError \<or> err = BroadcastError \<or> err = ShapeError"
proof -
  obtain f y e where st: "st = (f, y, e)" by (cases st)
  show ?thesis
    using assms unfolding st run_body_def run_delta_def
    by (auto simp: Let_def predict_def np_dot_def np_iadd_def np_broadcast_def
        dest: record_weights_error learning_rule_error
        split: prod.splits sum.splits if_splits)
qed

lemma run_loop_gngd_error:
  "run_loop (Some learning_rule) d x ks st = (Inl err, st') \<Longrightarrow>
     err = TypeError \<or> err = BroadcastError \<or> err = ShapeError"
proof (induction ks arbitrary: st)
  case Nil
  then show ?case by simp
next
  case (Cons k ks)
  then show ?case
    by (auto split: prod.splits sum.splits dest: run_body_gngd_error)
qed

lemma run_gngd_error_cases:
  assumes "length d = length x" and "x \<noteq> []" and "rectangular x"
  shows "fst (run (Some learning_rule) f d x) \<noteq> Inl DimensionMismatch \<and>
         fst (run (Some learning_rule) f d x) \<noteq> Inl ConversionError"
proof -
  from assms(2) obtain x0 rest where x: "x = x0 # rest" by (cases x) auto
  show ?thesis
    using assms
    by (auto simp: run_def Let_def x split: prod.splits sum.splits dest!: run_loop_gngd_error)
qed

text \<open>
  Claim C4 says that \<^verbatim>\<open>run\<close> raises \<^verbatim>\<open>DimensionMismatch\<close> exactly when the lengths of \<open>d\<close>
  and \<open>x\<close> differ, raises \<^verbatim>\<open>ConversionError\<close> when the data cannot be converted, and that a
  failed validation leaves the whole filter state unchanged.  The last part fails: the
  assignment \<^verbatim>\<open>self.n = len(x[0])\<close> stands between the two validations.  On the filter
  \<open>gngd0\<close>, whose \<open>n\<close> is \<open>2\<close>, the batch \<open>d = [1, 2]\<close>, \<open>x = [[1, 2, 3], [4]]\<close> raises
  \<^verbatim>\<open>ConversionError\<close> and leaves \<open>n = 3\<close>.
\<close>

theorem run_conversion_error_rebinds_n:
  "fst (run (Some learning_rule) gngd0 [1, 2] [[1, 2, 3], [4]]) = Inl ConversionError \<and>
   n (snd (run (Some learning_rule) gngd0 [1, 2] [[1, 2, 3], [4]])) = PyInt 3 \<and>
   n gngd0 = PyInt 2"
  by (simp add: run_def rectangular_def gngd0_def Let_def)

text \<open>
  Claim C4 as amended, for a GNGD filter: \<^verbatim>\<open>run(d, x)\<close> raises \<^verbatim>\<open>DimensionMismatch\<close> if and
  only if the lengths of \<open>d\<close> and \<open>x\<close> differ, and then the filter is unchanged; it raises
  \<^verbatim>\<open>ConversionError\<close> if and only if the lengths agree and the rows of \<open>x\<close> do not all have
  the same length, and then the weight vector, the weight history and the learning-rule state
  are unchanged, while the field \<open>n\<close> is already rebound to the width of the first row.
\<close>

theorem run_validation:
  "(fst (run (Some learning_rule) f d x) = Inl DimensionMismatch \<longleftrightarrow> length d \<noteq> length x) \<and>
   (fst (run (Some learning_rule) f d x) = Inl ConversionError \<longleftrightarrow>
      length d = length x \<and> \<not> rectangular x) \<and>
   (length d \<noteq> length x \<longrightarrow> snd (run (Some learning_rule) f d x) = f) \<and>
   (length d = length x \<and> \<not> rectangular x \<longrightarrow>
      snd (run (Some learning_rule) f d x) = f\<lparr>n := PyInt (int (length (hd x)))\<rparr>)"
proof (cases "length d = length x")
  case False
  then show ?thesis by (simp add: run_def)
next
  case len: True
  show ?thesis
  proof (cases x)
    case Nil
    with len show ?thesis by (simp add: run_def rectangular_def)
  next
    case (Cons x0 rest)
    show ?thesis
    proof (cases "rectangular x")
      case True
      with run_gngd_error_cases[OF len _ True, of f] len Cons show ?thesis by simp
    next
      case False
      with len Cons show ?thesis by (simp add: run_def Let_def)
    qed
  qed
qed

theorem run_validation_witness:
  "length [1 :: real] \<noteq> length ([] :: mat) \<and>
   snd (run (Some learning_rule) gngd0 [1] []) = gngd0 \<and>
   fst (run (Some learning_rule) gngd0 [1] []) = Inl DimensionMismatch \<and>
   length [1, 2 :: real] = length [[1, 2, 3], [4 :: real]] \<and> \<not> rectangular [[1, 2, 3], [4]] \<and>
   fst (run (Some learning_rule) gngd0 [1, 2] [[1, 2, 3], [4]]) = Inl ConversionError \<and>
   snd (run (Some learning_rule) gngd0 [1, 2] [[1, 2, 3], [4]]) = gngd0\<lparr>n := PyInt 3\<rparr>"
  using run_validation [of gngd0 "[1]" "[]"] run_validation [of gngd0 "[1, 2]" "[[1, 2, 3], [4]]"]
  by (simp add: rectangular_def)


section \<open>Training before the run\<close>

text \<open>
  Claim C9 says that \<^verbatim>\<open>pretrained_run\<close> splits the batch, runs the first part \<^verbatim>\<open>epochs\<close>
  times and returns the triple of the run on the rest, whose third component is the
  1-dimensional vector of final weights, as the method's docstring has it.  The third component
  is the weight history of that last run.  On \<open>gngd0\<close> with \<open>d = [1, 2]\<close>,
  \<open>x = [[1, 0], [0, 1]]\<close>, \<open>ntrain = 0.5\<close> and one epoch, the call returns the matrix
  \<open>[[1, 0]]\<close>, the weights before the only update of the test part, and the final weights are
  \<open>[1, 2]\<close>.
\<close>

theorem pretrained_run_returns_history:
  "pretrained_run (Some learning_rule) gngd0 [1, 2] [[1, 0], [0, 1]] (1 / 2) 1 =
     (Inr ([0], [2], Some [[1, 0]]),
      gngd0\<lparr>w := [1, 2], w_history := Some [[1, 0]], last_e := 2, last_x := [0, 1]\<rparr>)"
  by (simp add: pretrained_run_def py_int_def slice_to_def slice_from_def
      run_def rectangular_def run_body_def run_delta_def record_weights_def
      predict_def np_dot_def np_broadcast_def np_iadd_def learning_rule_def gngd0_def Let_def upt_rec)


section \<open>The affine-projection update\<close>

lemma map2_nth_conv:
  "length a = k \<Longrightarrow> length b = k \<Longrightarrow> map2 g a b = map (\<lambda>i. g (a ! i) (b ! i)) [0..<k]"
  by (rule nth_equalityI) auto

lemma shift1_insert:
  assumes "length r = c" and "0 < c"
  shows "(shift1 r)[0 := a] = map (\<lambda>j. if j = 0 then a else r ! (j - 1)) [0..<c]"
proof (rule nth_equalityI)
  show "length ((shift1 r)[0 := a]) = length (map (\<lambda>j. if j = 0 then a else r ! (j - 1)) [0..<c])"
    using assms by (simp add: shift1_def)
next
  fix j assume "j < length ((shift1 r)[0 := a])"
  with assms have j: "j < c" by (simp add: shift1_def)
  show "(shift1 r)[0 := a] ! j = map (\<lambda>j. if j = 0 then a else r ! (j - 1)) [0..<c] ! j"
  proof (cases j)
    case 0
    with assms j show ?thesis by (simp add: shift1_def)
  next
    case (Suc j')
    with assms j have "(shift1 r) ! j = r ! j'"
      by (simp add: shift1_def nth_append nth_butlast)
    with Suc j show ?thesis by simp
  qed
qed

lemma update_mem_ok:
  assumes "ap_shape f" and "0 < order f" and "length x = length (w f)"
  shows "update_mem f d x =
           (Inr (), f\<lparr>x_mem := ap_spec_x_mem (order f) (x_mem f) x,
                       d_mem := ap_spec_d_mem (order f) (d_mem f) d\<rparr>)"
proof -
  let ?X = "x_mem f" and ?c = "order f"
  have len: "length ?X = length x" "length (d_mem f) = ?c"
    and rows: "\<And>i. i < length ?X \<Longrightarrow> length (?X ! i) = ?c"
    using assms by (auto simp: ap_shape_def list_all_length)
  have X: "map2 (\<lambda>r a. r[0 := a]) (map shift1 ?X) x = ap_spec_x_mem ?c ?X x"
  proof (rule nth_equalityI)
    show "length (map2 (\<lambda>r a. r[0 := a]) (map shift1 ?X) x) = length (ap_spec_x_mem ?c ?X x)"
      using len by (simp add: ap_spec_x_mem_def)
  next
    fix i assume "i < length (map2 (\<lambda>r a. r[0 := a]) (map shift1 ?X) x)"
    with len have i: "i < length ?X" "i < length x" by simp_all
    then show "map2 (\<lambda>r a. r[0 := a]) (map shift1 ?X) x ! i = ap_spec_x_mem ?c ?X x ! i"
      using shift1_insert[OF rows[OF i(1)] assms(2), of "x ! i"]
      by (simp add: ap_spec_x_mem_def)
  qed
  have D: "(shift1 (d_mem f))[0 := d] = ap_spec_d_mem ?c (d_mem f) d"
    using shift1_insert[OF len(2) assms(2)] by (simp add: ap_spec_d_mem_def)
  show ?thesis
    using assms(2) len
    by (simp add: update_mem_def Let_def np_broadcast_def X D)
qed

lemma ap_spec_x_mem_shape:
  "length (ap_spec_x_mem c X x) = length X"
  "i < length X \<Longrightarrow> length (ap_spec_x_mem c X x ! i) = c"
  by (simp_all add: ap_spec_x_mem_def)

lemma column_sum:
  assumes "length X = length (v :: vec)"
  shows "sum_list (map2 (*) (column j X) v) = (\<Sum>i<length X. X ! i ! j * v ! i)"
proof -
  have "length (column j X) = length v" using assms by (simp add: column_def)
  from sum_list_map2_nth[OF this] assms show ?thesis
    by (simp add: column_def)
qed

lemma estimate_ok:
  assumes "length (w f) = length (x_mem f)" and "length (d_mem f) = order f"
  shows "estimate f =
           (Inr (ap_spec_y_mem (order f) (x_mem f) (w f),
                 ap_spec_e_mem (order f) (d_mem f) (ap_spec_y_mem (order f) (x_mem f) (w f))),
            f\<lparr>y_mem := Some (ap_spec_y_mem (order f) (x_mem f) (w f)),
              e_mem := Some (ap_spec_e_mem (order f) (d_mem f)
                               (ap_spec_y_mem (order f) (x_mem f) (w f)))\<rparr>)"
proof -
  have Y: "mat_vec (mat_T (order f) (x_mem f)) (w f) = ap_spec_y_mem (order f) (x_mem f) (w f)"
    using assms(1) by (simp add: mat_vec_def mat_T_def ap_spec_y_mem_def column_sum)
  have E: "map2 (-) (d_mem f) (ap_spec_y_mem (order f) (x_mem f) (w f)) =
           ap_spec_e_mem (order f) (d_mem f) (ap_spec_y_mem (order f) (x_mem f) (w f))"
    unfolding ap_spec_e_mem_def
    by (rule map2_nth_conv) (simp_all add: assms ap_spec_y_mem_def)
  show ?thesis
    using assms(1) by (simp add: estimate_def Let_def Y E)
qed

lemma np_identity_nth:
  "i < k \<Longrightarrow> j < k \<Longrightarrow> np_identity k ! i ! j = (if i = j then 1 else 0)"
  "length (np_identity k) = k"
  "i < k \<Longrightarrow> length (np_identity k ! i) = k"
  by (simp_all add: np_identity_def)

lemma system_ok:
  assumes "ap_consts f"
  shows "mat_add (mat_mul (order f) (mat_T (order f) X) X) (ide_eps f) =
         ap_spec_system (order f) X (AdaptiveFilterAP.eps f)"
proof -
  let ?c = "order f"
  have ie: "ide_eps f = map (map (\<lambda>a. AdaptiveFilterAP.eps f * a)) (np_identity ?c)"
    using assms by (simp add: ap_consts_def)
  show ?thesis
  proof (rule nth_equalityI)
    show "length (mat_add (mat_mul ?c (mat_T ?c X) X) (ide_eps f)) =
          length (ap_spec_system ?c X (AdaptiveFilterAP.eps f))"
      by (simp add: mat_add_def mat_mul_def mat_T_def ie np_identity_nth ap_spec_system_def)
  next
    fix i assume "i < length (mat_add (mat_mul ?c (mat_T ?c X) X) (ide_eps f))"
    then have i: "i < ?c"
      by (simp add: mat_add_def mat_mul_def mat_T_def ie np_identity_nth)
    have row: "mat_vec (mat_T ?c X) (column i X) =
               map (\<lambda>j. \<Sum>k<length X. X ! k ! i * X ! k ! j) [0..<?c]"
    proof -
      have "sum_list (map2 (*) (column j X) (column i X)) = (\<Sum>k<length X. X ! k ! i * X ! k ! j)" for j
        using column_sum[of X "column i X" j]
        by (simp add: column_def mult.commute)
      then show ?thesis by (simp add: mat_vec_def mat_T_def)
    qed
    have "mat_add (mat_mul ?c (mat_T ?c X) X) (ide_eps f) ! i =
          map2 (+) (mat_vec (mat_T ?c X) (column i X))
                   (map (\<lambda>a. AdaptiveFilterAP.eps f * a) (np_identity ?c ! i))"
      using i by (simp add: mat_add_def mat_mul_def mat_T_def ie np_identity_nth)
    also have "\<dots> = map (\<lambda>j. (\<Sum>k<length X. X ! k ! i * X ! k ! j) +
                           AdaptiveFilterAP.eps f * (np_identity ?c ! i ! j)) [0..<?c]"
      unfolding row
      by (rule nth_equalityI) (simp_all add: np_identity_nth i)
    also have "\<dots> = ap_spec_system ?c X (AdaptiveFilterAP.eps f) ! i"
      using i by (simp add: ap_spec_system_def np_identity_nth)
    finally show "mat_add (mat_mul ?c (mat_T ?c X) X) (ide_eps f) ! i =
                  ap_spec_system ?c X (AdaptiveFilterAP.eps f) ! i" .
  qed
qed

lemma dw_ok:
  assumes "\<And>i. i < length X \<Longrightarrow> length (X ! i) = c"
    and "length z = c" and "\<And>j. j < c \<Longrightarrow> length (z ! j) = c" and "length E = c"
  shows "mat_vec X (mat_vec z E) = ap_spec_dw c X z E"
proof (rule nth_equalityI)
  show "length (mat_vec X (mat_vec z E)) = length (ap_spec_dw c X z E)"
    by (simp add: mat_vec_def ap_spec_dw_def)
next
  fix i assume "i < length (mat_vec X (mat_vec z E))"
  then have i: "i < length X" by (simp add: mat_vec_def)
  have inner: "mat_vec z E ! j = (\<Sum>k<c. z ! j ! k * E ! k)" if "j < c" for j
    using that assms(2-4) sum_list_map2_nth[of "z ! j" E] by (simp add: mat_vec_def)
  have "mat_vec X (mat_vec z E) ! i = sum_list (map2 (*) (X ! i) (mat_vec z E))"
    using i by (simp add: mat_vec_def)
  also have "\<dots> = (\<Sum>j<c. X ! i ! j * mat_vec z E ! j)"
    using sum_list_map2_nth[of "X ! i" "mat_vec z E"] assms(1)[OF i] assms(2)
    by (simp add: mat_vec_def)
  also have "\<dots> = (\<Sum>j<c. X ! i ! j * (\<Sum>k<c. z ! j ! k * E ! k))"
    by (rule sum.cong) (simp_all add: inner)
  finally show "mat_vec X (mat_vec z E) ! i = ap_spec_dw c X z E ! i"
    using i by (simp add: ap_spec_dw_def)
qed

lemma w_ok:
  "length dw = length wv \<Longrightarrow> map2 (+) wv (map (\<lambda>a. m * a) dw) = ap_spec_w wv m dw"
  unfolding ap_spec_w_def
  by (rule nth_equalityI) simp_all

text \<open>
  Claim C7: \<^verbatim>\<open>adapt(d, x)\<close> of an affine-projection filter, for \<open>x\<close> of the filter's length,
  makes \<open>x\<close> column \<open>0\<close> of \<^verbatim>\<open>x_mem\<close> and moves the other columns one place up, the oldest
  dropped; puts \<open>d\<close> first in \<^verbatim>\<open>d_mem\<close> in the same way; computes
  \<open>y_mem = x_mem\<^sup>T \<cdot> w\<close> and \<open>e_mem = d_mem - y_mem\<close>; solves
  \<open>(x_mem\<^sup>T \<cdot> x_mem + eps \<cdot> I) \<cdot> z = I\<close>; and adds \<open>mu \<cdot> x_mem \<cdot> (z \<cdot> e_mem)\<close> to the weights.
  The filter has the shape and the constant matrices its constructor gives it, with a window
  of at least one sample, and \<open>z\<close> is what the solver returns for that system, an
  \<open>order \<times> order\<close> matrix.
\<close>

theorem adapt_AP_steps:
  fixes d :: real
  assumes shape: "ap_shape f" and cst: "ap_consts f" and pos: "0 < order f"
    and len: "length x = length (w f)"
  defines "X \<equiv> ap_spec_x_mem (order f) (x_mem f) x"
    and "D \<equiv> ap_spec_d_mem (order f) (d_mem f) d"
  defines "Y \<equiv> ap_spec_y_mem (order f) X (w f)"
  defines "E \<equiv> ap_spec_e_mem (order f) D Y"
  assumes sol: "solve (ap_spec_system (order f) X (AdaptiveFilterAP.eps f)) (np_identity (order f)) = Inr z"
    and zlen: "length z = order f" and zrows: "list_all (\<lambda>r. length r = order f) z"
  shows "adapt_AP solve f d x =
           (Inr (), f\<lparr>x_mem := X, d_mem := D, y_mem := Some Y, e_mem := Some E,
                       w := ap_spec_w (w f) (num_val (mu f)) (ap_spec_dw (order f) X z E)\<rparr>)"
proof -
  let ?c = "order f"
  let ?f1 = "f\<lparr>x_mem := X, d_mem := D\<rparr>"
  let ?f2 = "?f1\<lparr>y_mem := Some Y, e_mem := Some E\<rparr>"
  have um: "update_mem f d x = (Inr (), ?f1)"
    unfolding X_def D_def by (rule update_mem_ok) fact+
  have lenX: "length X = length (w f)"
    using shape by (simp add: X_def ap_spec_x_mem_shape ap_shape_def)
  have rowsX: "\<And>i. i < length X \<Longrightarrow> length (X ! i) = ?c"
    by (simp add: X_def ap_spec_x_mem_def)
  have es: "estimate ?f1 = (Inr (Y, E), ?f2)"
    using estimate_ok[of ?f1] lenX
    by (simp add: Y_def E_def D_def ap_spec_d_mem_def)
  have sys: "mat_add (mat_mul (order ?f2) (mat_T (order ?f2) (x_mem ?f2)) (x_mem ?f2)) (ide_eps ?f2)
             = ap_spec_system ?c X (AdaptiveFilterAP.eps f)"
    using system_ok[of ?f2 X] cst by (simp add: ap_consts_def)
  have ide: "ide ?f2 = np_identity ?c"
    using cst by (simp add: ap_consts_def)
  have dw: "mat_vec X (mat_vec z E) = ap_spec_dw ?c X z E"
    using rowsX zlen zrows
    by (intro dw_ok) (auto simp: list_all_length E_def ap_spec_e_mem_def)
  have "length (ap_spec_dw ?c X z E) = length (w f)"
    using lenX by (simp add: ap_spec_dw_def)
  then have wv: "map2 (+) (w f) (map (\<lambda>a. num_val (mu f) * a) (ap_spec_dw ?c X z E)) =
             ap_spec_w (w f) (num_val (mu f)) (ap_spec_dw ?c X z E)"
    by (rule w_ok)
  show ?thesis
    using sol sys ide by (simp add: adapt_AP_def um es dw wv Let_def)
qed

theorem adapt_AP_steps_witness:
  "ap_shape ap2 \<and> ap_consts ap2 \<and> 0 < order ap2 \<and> length [1, 0 :: real] = length (w ap2) \<and>
   solve_small (ap_spec_system (order ap2) (ap_spec_x_mem (order ap2) (x_mem ap2) [1, 0])
                  (AdaptiveFilterAP.eps ap2)) (np_identity (order ap2))
     = Inr [[1 / 2, 0], [0, 1]] \<and>
   adapt_AP solve_small ap2 1 [1, 0] =
     (Inr (), ap2\<lparr>x_mem := [[1, 0], [0, 0]], d_mem := [1, 0], y_mem := Some [0, 0],
                   e_mem := Some [1, 0], w := [1 / 4, 0]\<rparr>)"
proof -
  have nums: "[0..<2] = [0, 1]" "{..<2::nat} = {0, 1}"
    by (auto simp: upt_rec)
  have a: "ap_shape ap2" "ap_consts ap2" "0 < order ap2" "length [1, 0 :: real] = length (w ap2)"
    by (simp_all add: ap_shape_def ap_consts_def ap2_def np_identity_def nums)
  have X: "ap_spec_x_mem (order ap2) (x_mem ap2) [1, 0] = [[1, 0], [0, 0]]"
    by (simp add: ap_spec_x_mem_def ap2_def nums)
  have s: "solve_small (ap_spec_system (order ap2) (ap_spec_x_mem (order ap2) (x_mem ap2) [1, 0])
                  (AdaptiveFilterAP.eps ap2)) (np_identity (order ap2)) = Inr [[1 / 2, 0], [0, 1]]"
    unfolding X by (simp add: ap_spec_system_def solve_small_def np_identity_def ap2_def nums)
  have z: "length [[1 / 2, 0], [0, 1 :: real]] = order ap2"
    "list_all (\<lambda>r. length r = order ap2) [[1 / 2, 0], [0, 1 :: real]]"
    by (simp_all add: ap2_def)
  from adapt_AP_steps [where solve = solve_small and d = 1, OF a s z] a s show ?thesis
    unfolding X
    by (simp add: ap2_def ap_spec_d_mem_def ap_spec_y_mem_def ap_spec_e_mem_def ap_spec_dw_def
        ap_spec_w_def nums)
qed

lemma column_window:
  assumes "length x = length X" and "j < c"
  shows "column j (ap_spec_x_mem c X x) = (if j = 0 then x else column (j - 1) X)"
proof (cases "j = 0")
  case True
  have "map (\<lambda>i. x ! i) [0..<length X] = x"
    using assms(1) map_nth[of x] by simp
  with True assms show ?thesis
    by (simp add: column_def ap_spec_x_mem_def comp_def)
next
  case False
  have "map (\<lambda>i. X ! i ! (j - 1)) [0..<length X] = map (\<lambda>r. r ! (j - 1)) X"
    by (rule nth_equalityI) simp_all
  with False assms show ?thesis
    by (simp add: column_def ap_spec_x_mem_def comp_def)
qed

lemma adapt_AP_state:
  assumes "ap_shape f" and "0 < order f" and "length x = length (w f)"
  shows "x_mem (snd (adapt_AP solve f d x)) = ap_spec_x_mem (order f) (x_mem f) x \<and>
         order (snd (adapt_AP solve f d x)) = order f \<and>
         length (w (snd (adapt_AP solve f d x))) = length (w f) \<and>
         ap_shape (snd (adapt_AP solve f d x))"
proof -
  let ?X = "ap_spec_x_mem (order f) (x_mem f) x" and ?D = "ap_spec_d_mem (order f) (d_mem f) d"
  let ?f1 = "f\<lparr>x_mem := ?X, d_mem := ?D\<rparr>"
  have um: "update_mem f d x = (Inr (), ?f1)"
    by (rule update_mem_ok) fact+
  have lenX: "length ?X = length (w f)"
    using assms(1) by (simp add: ap_spec_x_mem_shape ap_shape_def)
  have rows: "list_all (\<lambda>r. length r = order f) ?X"
    by (simp add: list_all_length ap_spec_x_mem_def)
  have lenD: "length ?D = order f"
    by (simp add: ap_spec_d_mem_def)
  obtain Y E where es: "estimate ?f1 = (Inr (Y, E), ?f1\<lparr>y_mem := Some Y, e_mem := Some E\<rparr>)"
    using estimate_ok[of ?f1] lenX lenD by simp
  let ?f2 = "?f1\<lparr>y_mem := Some Y, e_mem := Some E\<rparr>"
  let ?A = "mat_add (mat_mul (order f) (mat_T (order f) ?X) ?X) (ide_eps f)"
  show ?thesis
  proof (cases "solve ?A (ide f)")
    case (Inl err)
    then show ?thesis
      using lenX rows lenD by (simp add: adapt_AP_def um es Let_def ap_shape_def)
  next
    case (Inr z)
    then show ?thesis
      using lenX rows lenD by (simp add: adapt_AP_def um es Let_def ap_shape_def mat_vec_def)
  qed
qed

lemma adapt_calls_snoc:
  "adapt_calls solve f (cs @ [c]) =
     snd (adapt_AP solve (adapt_calls solve f cs) (fst c) (snd c))"
proof (induction cs arbitrary: f)
  case Nil
  show ?case by (cases c) simp
next
  case (Cons a cs)
  then show ?case by (cases a) simp
qed

lemma adapt_calls_shape:
  assumes "list_all (\<lambda>c. length (snd c) = length (w f)) cs" and "ap_shape f" and "0 < order f"
  shows "ap_shape (adapt_calls solve f cs) \<and> order (adapt_calls solve f cs) = order f \<and>
         length (w (adapt_calls solve f cs)) = length (w f)"
  using assms
proof (induction cs arbitrary: f)
  case Nil
  then show ?case by simp
next
  case (Cons c cs)
  obtain dk xk where c: "c = (dk, xk)" by (cases c)
  from Cons.prems have xk: "length xk = length (w f)" by (simp add: c)
  let ?g = "snd (adapt_AP solve f dk xk)"
  from adapt_AP_state[OF Cons.prems(2,3) xk, of solve dk] have
    g: "ap_shape ?g" "order ?g = order f" "length (w ?g) = length (w f)" by auto
  from Cons.prems(1) g(3) have all: "list_all (\<lambda>c. length (snd c) = length (w ?g)) cs"
    by (simp add: c)
  from Cons.prems(3) g(2) have pos: "0 < order ?g" by simp
  from Cons.IH[OF all g(1) pos] g(2,3) show ?case
    by (simp add: c)
qed

lemma adapt_calls_window:
  assumes "list_all (\<lambda>c. length (snd c) = length (w f)) cs" and "ap_shape f" and "0 < order f"
    and "j < order f"
  shows "column j (x_mem (adapt_calls solve f cs)) =
           (if j < length cs then snd (cs ! (length cs - 1 - j))
            else column (j - length cs) (x_mem f))"
  using assms(1,4)
proof (induction cs arbitrary: j rule: rev_induct)
  case Nil
  then show ?case by simp
next
  case (snoc c cs)
  let ?g = "adapt_calls solve f cs"
  from snoc.prems(1) have all: "list_all (\<lambda>c. length (snd c) = length (w f)) cs"
    and c: "length (snd c) = length (w f)" by simp_all
  from adapt_calls_shape[OF all assms(2,3), of solve] have
    g: "ap_shape ?g" "order ?g = order f" "length (w ?g) = length (w f)" by auto
  from g(1) have lx: "length (x_mem ?g) = length (w ?g)" by (simp add: ap_shape_def)
  have c': "length (snd c) = length (w ?g)" using c g(3) by simp
  have pos: "0 < order ?g" using g(2) assms(3) by simp
  from adapt_AP_state[OF g(1) pos c', of solve "fst c"] have
    xm: "x_mem (adapt_calls solve f (cs @ [c])) = ap_spec_x_mem (order f) (x_mem ?g) (snd c)"
    by (simp add: adapt_calls_snoc g(2))
  have col: "column j (x_mem (adapt_calls solve f (cs @ [c]))) =
             (if j = 0 then snd c else column (j - 1) (x_mem ?g))"
    unfolding xm using c' lx snoc.prems(2) by (intro column_window) simp_all
  show ?case
  proof (cases "j = 0")
    case True
    with col show ?thesis by simp
  next
    case False
    with snoc.prems(2) have j1: "j - 1 < order f" by simp
    from snoc.IH[OF all j1] col False show ?thesis
      by (auto simp: nth_append)
  qed
qed

text \<open>
  Claim C8: for a window depth \<open>order \<ge> 1\<close>, after \<open>m \<ge> order\<close> calls of \<^verbatim>\<open>adapt\<close> with the
  inputs \<open>x\<^sub>1, \<dots>, x\<^sub>m\<close> (each of the filter's length), column \<open>j\<close> of \<^verbatim>\<open>x_mem\<close> is
  \<open>x\<^bsub>m-j\<^esub>\<close> for every \<open>j < order\<close>; the calls are numbered from \<open>0\<close> here, so that is entry
  \<open>m - 1 - j\<close> of the list of calls.  It holds whatever the solver does in those calls.
\<close>

theorem x_mem_sliding_window:
  assumes "ap_shape f" and "0 < order f" and "order f \<le> length cs"
    and "list_all (\<lambda>c. length (snd c) = length (w f)) cs"
  shows "\<forall>j<order f. column j (x_mem (adapt_calls solve f cs)) = snd (cs ! (length cs - 1 - j))"
  using adapt_calls_window[OF assms(4,1,2), of _ solve] assms(3) by auto

theorem x_mem_sliding_window_witness:
  "ap_shape ap2 \<and> 0 < order ap2 \<and> order ap2 \<le> length [(1, [1, 0]), (2, [0, 1]), (3 :: real, [1, 1 :: real])] \<and>
   list_all (\<lambda>c. length (snd c) = length (w ap2)) [(1, [1, 0]), (2, [0, 1]), (3 :: real, [1, 1 :: real])] \<and>
   column 0 (x_mem (adapt_calls solve_small ap2 [(1, [1, 0]), (2, [0, 1]), (3, [1, 1])])) = [1, 1] \<and>
   column 1 (x_mem (adapt_calls solve_small ap2 [(1, [1, 0]), (2, [0, 1]), (3, [1, 1])])) = [0, 1]"
proof -
  let ?cs = "[(1, [1, 0]), (2, [0, 1]), (3 :: real, [1, 1 :: real])]"
  have a: "ap_shape ap2" "0 < order ap2" "order ap2 \<le> length ?cs"
    "list_all (\<lambda>c. length (snd c) = length (w ap2)) ?cs"
    by (simp_all add: ap_shape_def ap2_def)
  have o: "order ap2 = 2" by (simp add: ap2_def)
  from x_mem_sliding_window [OF a, where solve = solve_small] have
    "\<forall>j<2. column j (x_mem (adapt_calls solve_small ap2 ?cs)) = snd (?cs ! (length ?cs - 1 - j))"
    unfolding o .
  then have "column 0 (x_mem (adapt_calls solve_small ap2 ?cs)) = snd (?cs ! (length ?cs - 1 - 0))"
    and "column 1 (x_mem (adapt_calls solve_small ap2 ?cs)) = snd (?cs ! (length ?cs - 1 - 1))"
    by simp_all
  then have c: "column 0 (x_mem (adapt_calls solve_small ap2 ?cs)) = [1, 1]"
    "column 1 (x_mem (adapt_calls solve_small ap2 ?cs)) = [0, 1]"
    by simp_all
  from a c show ?thesis by (intro conjI)
qed


section \<open>The affine-projection batch run and the single-sample update\<close>

lemma gngd0_constructed:
  "FilterGNGD_init no_random (PyInt 2) (PyInt 2) 1 (1 / 10) (WSeq [0, 0]) = Inr gngd0"
  by (simp add: FilterGNGD_init_def AdaptiveFilter_init_def init_weights_def gngd0_def
      numeral_2_eq_2)

lemma ap1_constructed:
  "AdaptiveFilterAP_init no_random (PyFloat (1 / 2)) (PyInt 1) (WSeq [0]) 1 1 = Inr ap1"
  by (simp add: AdaptiveFilterAP_init_def AdaptiveFilter_init_def init_weights_def ap1_def
      np_identity_def)

lemma ap2_constructed:
  "AdaptiveFilterAP_init no_random (PyFloat (1 / 2)) (PyInt 2) (WSeq [0, 0]) 2 1 = Inr ap2"
  by (simp add: AdaptiveFilterAP_init_def AdaptiveFilter_init_def init_weights_def ap2_def
      np_identity_def upt_rec numeral_2_eq_2)

lemma AdaptiveFilterAP_init_shape:
  assumes "AdaptiveFilterAP_init normal mu_arg n_arg wspec order_arg eps_arg = Inr f"
    and "\<forall>k. length (normal k) = k"
  shows "ap_shape f \<and> ap_consts f"
proof -
  from assms(1) obtain b rows where
    b: "AdaptiveFilter_init normal mu_arg n_arg wspec = Inr b" and
    rows: "n b = PyInt rows" "0 \<le> rows" "0 \<le> order_arg" and
    f: "f = \<lparr>w = w b, n = n b, w_history = w_history b, mu = mu b,
             order = nat order_arg, AdaptiveFilterAP.eps = eps_arg,
             x_mem = replicate (nat rows) (replicate (nat order_arg) 0),
             d_mem = replicate (nat order_arg) 0,
             ide_eps = map (map (\<lambda>a. eps_arg * a)) (np_identity (nat order_arg)),
             ide = np_identity (nat order_arg), y_mem = None, e_mem = None\<rparr>"
    by (auto simp: AdaptiveFilterAP_init_def split: sum.splits pynum.splits if_splits)
  from b rows(1) have "int (length (w b)) = rows"
    using assms(2)
    by (cases wspec; cases n_arg)
       (auto simp: AdaptiveFilter_init_def init_weights_def split: sum.splits if_splits)
  then show ?thesis
    by (auto simp: f ap_shape_def ap_consts_def list_all_length)
qed

lemma run_body_AP_sim:
  assumes shape: "ap_shape g" and pos: "0 < order g" and lx: "length (x ! k) = length (w g)"
    and hist: "w_history g = Some h" and row: "length (h ! k) = length (w g)"
  shows "\<exists>r g' ym em.
           run_body_AP (Some (ap_learning_rule solve)) d x k (g, y, e)
             = (r, g', y[k := ym ! 0], e[k := em ! 0]) \<and>
           adapt_AP solve (g\<lparr>n := nv, w_history := hv\<rparr>) (d ! k) (x ! k)
             = (r, g'\<lparr>n := nv, w_history := hv\<rparr>) \<and>
           y_mem g' = Some ym \<and> e_mem g' = Some em \<and>
           w_history g' = Some (h[k := w g]) \<and>
           ap_shape g' \<and> order g' = order g \<and> length (w g') = length (w g)"
proof -
  let ?c = "order g"
  let ?X = "ap_spec_x_mem ?c (x_mem g) (x ! k)" and ?D = "ap_spec_d_mem ?c (d_mem g) (d ! k)"
  let ?Y = "ap_spec_y_mem ?c ?X (w g)"
  let ?E = "ap_spec_e_mem ?c ?D ?Y"
  let ?g1 = "g\<lparr>w_history := Some (h[k := w g])\<rparr>"
  let ?g2 = "?g1\<lparr>x_mem := ?X, d_mem := ?D\<rparr>"
  let ?g3 = "?g2\<lparr>y_mem := Some ?Y, e_mem := Some ?E\<rparr>"
  let ?a = "g\<lparr>n := nv, w_history := hv\<rparr>"
  let ?a2 = "?a\<lparr>x_mem := ?X, d_mem := ?D\<rparr>"
  let ?a3 = "?a2\<lparr>y_mem := Some ?Y, e_mem := Some ?E\<rparr>"
  let ?A = "mat_add (mat_mul ?c (mat_T ?c ?X) ?X) (ide_eps g)"
  have lenX: "length ?X = length (w g)"
    using shape by (simp add: ap_spec_x_mem_shape ap_shape_def)
  have rows: "list_all (\<lambda>r. length r = ?c) ?X"
    by (simp add: list_all_length ap_spec_x_mem_def)
  have lenD: "length ?D = ?c"
    by (simp add: ap_spec_d_mem_def)
  have rw: "record_weights g k = (Inr (), ?g1)"
    using hist row by (simp add: record_weights_def np_broadcast_def)
  have um_g: "update_mem ?g1 (d ! k) (x ! k) = (Inr (), ?g2)"
    using update_mem_ok[of ?g1 "x ! k" "d ! k"] shape pos lx by (simp add: ap_shape_def)
  have um_a: "update_mem ?a (d ! k) (x ! k) = (Inr (), ?a2)"
    using update_mem_ok[of ?a "x ! k" "d ! k"] shape pos lx by (simp add: ap_shape_def)
  have es_g: "estimate ?g2 = (Inr (?Y, ?E), ?g3)"
    using estimate_ok[of ?g2] lenX lenD by simp
  have es_a: "estimate ?a2 = (Inr (?Y, ?E), ?a3)"
    using estimate_ok[of ?a2] lenX lenD by simp
  show ?thesis
  proof (cases "solve ?A (ide g)")
    case (Inl err)
    have 1: "run_body_AP (Some (ap_learning_rule solve)) d x k (g, y, e)
               = (Inl err, ?g3, y[k := ?Y ! 0], e[k := ?E ! 0])"
      using Inl by (simp add: run_body_AP_def rw um_g es_g ap_learning_rule_def Let_def)
    have 2: "adapt_AP solve ?a (d ! k) (x ! k) = (Inl err, ?g3\<lparr>n := nv, w_history := hv\<rparr>)"
      using Inl by (simp add: adapt_AP_def um_a es_a Let_def)
    have 3: "ap_shape ?g3"
      using lenX rows lenD by (simp add: ap_shape_def)
    from 1 2 3 show ?thesis by simp
  next
    case (Inr z)
    let ?delta = "map (\<lambda>a. num_val (mu g) * a) (mat_vec ?X (mat_vec z ?E))"
    let ?g4 = "?g3\<lparr>w := map2 (+) (w g) ?delta\<rparr>"
    have ld: "length ?delta = length (w g)"
      using lenX by (simp add: mat_vec_def)
    then have ia: "np_iadd (w g) ?delta = Inr (map2 (+) (w g) ?delta)"
      by (simp add: np_iadd_def np_broadcast_def)
    have 1: "run_body_AP (Some (ap_learning_rule solve)) d x k (g, y, e)
               = (Inr (), ?g4, y[k := ?Y ! 0], e[k := ?E ! 0])"
      using Inr ia by (simp add: run_body_AP_def rw um_g es_g ap_learning_rule_def Let_def)
    have 2: "adapt_AP solve ?a (d ! k) (x ! k) = (Inr (), ?g4\<lparr>n := nv, w_history := hv\<rparr>)"
      using Inr by (simp add: adapt_AP_def um_a es_a Let_def)
    have 3: "ap_shape ?g4"
      using lenX rows lenD ld by (simp add: ap_shape_def)
    from 1 2 3 ld show ?thesis by simp
  qed
qed


lemma run_loop_AP_sim:
  assumes "ap_shape g" and "0 < order g" and "\<forall>k<N. length (x ! k) = length (w g)"
    and "length d = N" and "length x = N"
    and "w_history g = Some h" and "length h = N" and "\<forall>k<N. length (h ! k) = length (w g)"
    and "length y = N" and "length e = N"
  shows "\<exists>r g' y' e'.
           run_loop_AP (Some (ap_learning_rule solve)) d x [i..<N] (g, y, e) = (r, g', y', e') \<and>
           adapt_seq solve (g\<lparr>n := nv, w_history := hv\<rparr>) (drop i d) (drop i x)
             = (r, g'\<lparr>n := nv, w_history := hv\<rparr>) \<and>
           (r = Inr () \<longrightarrow>
              map Some y' = map Some (take i y) @
                map (\<lambda>s. map_option (\<lambda>v. v ! 0) (y_mem s))
                  (adapt_trace solve (g\<lparr>n := nv, w_history := hv\<rparr>) (drop i d) (drop i x)) \<and>
              map Some e' = map Some (take i e) @
                map (\<lambda>s. map_option (\<lambda>v. v ! 0) (e_mem s))
                  (adapt_trace solve (g\<lparr>n := nv, w_history := hv\<rparr>) (drop i d) (drop i x)))"
  using assms
proof (induction "N - i" arbitrary: i g y e h)
  case 0
  then have z: "[i..<N] = []" "drop i d = []" "drop i x = []" "take i y = y" "take i e = e"
    by simp_all
  show ?case unfolding z by simp
next
  case (Suc m)
  let ?lr = "Some (ap_learning_rule solve)"
  let ?a = "g\<lparr>n := nv, w_history := hv\<rparr>"
  from Suc.hyps(2) have iN: "i < N" by simp
  then have upt: "[i..<N] = i # [Suc i..<N]" by (rule upt_conv_Cons)
  from iN Suc.prems(4,5) have dr: "drop i d = d ! i # drop (Suc i) d" "drop i x = x ! i # drop (Suc i) x"
    by (simp_all add: Cons_nth_drop_Suc)
  from Suc.prems(3,8) iN have lx: "length (x ! i) = length (w g)" and row: "length (h ! i) = length (w g)"
    by simp_all
  from run_body_AP_sim[OF Suc.prems(1,2) lx Suc.prems(6) row, where solve = solve and d = d and y = y and e = e and nv = nv and hv = hv]
  obtain r0 g1 ym em where
    body: "run_body_AP ?lr d x i (g, y, e) = (r0, g1, y[i := ym ! 0], e[i := em ! 0])" and
    ad: "adapt_AP solve ?a (d ! i) (x ! i) = (r0, g1\<lparr>n := nv, w_history := hv\<rparr>)" and
    mem: "y_mem g1 = Some ym" "e_mem g1 = Some em" and
    h1: "w_history g1 = Some (h[i := w g])" and
    g1: "ap_shape g1" "order g1 = order g" "length (w g1) = length (w g)"
    by blast
  show ?case
  proof (cases r0)
    case (Inl err)
    with body ad show ?thesis by (simp add: upt dr)
  next
    case (Inr u)
    let ?y1 = "y[i := ym ! 0]" and ?e1 = "e[i := em ! 0]"
    let ?a1 = "g1\<lparr>n := nv, w_history := hv\<rparr>"
    have m: "m = N - Suc i" using Suc.hyps(2) by simp
    have p2: "0 < order g1" using g1(2) Suc.prems(2) by simp
    have p3: "\<forall>k<N. length (x ! k) = length (w g1)" using Suc.prems(3) g1(3) by simp
    have p7: "length (h[i := w g]) = N" using Suc.prems(7) by simp
    have p8: "\<forall>k<N. length (h[i := w g] ! k) = length (w g1)"
      using Suc.prems(7,8) g1(3) iN by (auto simp: nth_list_update)
    have p9: "length ?y1 = N" "length ?e1 = N" using Suc.prems(9,10) by simp_all
    from Suc.hyps(1)[OF m g1(1) p2 p3 Suc.prems(4,5) h1 p7 p8 p9]
    obtain r g' y' e' where
      loop: "run_loop_AP ?lr d x [Suc i..<N] (g1, ?y1, ?e1) = (r, g', y', e')" and
      seq: "adapt_seq solve ?a1 (drop (Suc i) d) (drop (Suc i) x) = (r, g'\<lparr>n := nv, w_history := hv\<rparr>)" and
      ye: "r = Inr () \<longrightarrow>
             map Some y' = map Some (take (Suc i) ?y1) @
               map (\<lambda>s. map_option (\<lambda>v. v ! 0) (y_mem s))
                 (adapt_trace solve ?a1 (drop (Suc i) d) (drop (Suc i) x)) \<and>
             map Some e' = map Some (take (Suc i) ?e1) @
               map (\<lambda>s. map_option (\<lambda>v. v ! 0) (e_mem s))
                 (adapt_trace solve ?a1 (drop (Suc i) d) (drop (Suc i) x))"
      by blast
    have tk: "take (Suc i) ?y1 = take i y @ [ym ! 0]" "take (Suc i) ?e1 = take i e @ [em ! 0]"
      using iN Suc.prems(9,10) by (simp_all add: take_Suc_conv_app_nth)
    have L: "run_loop_AP ?lr d x [i..<N] (g, y, e) = (r, g', y', e')"
      using body loop Inr by (simp add: upt)
    have S: "adapt_seq solve ?a (drop i d) (drop i x) = (r, g'\<lparr>n := nv, w_history := hv\<rparr>)"
      using ad seq Inr by (simp add: dr)
    have T: "adapt_trace solve ?a (drop i d) (drop i x) =
               ?a1 # adapt_trace solve ?a1 (drop (Suc i) d) (drop (Suc i) x)"
      using ad Inr by (simp add: dr)
    from ye mem have
      "r = Inr () \<longrightarrow>
         map Some y' = map Some (take i y) @
           map (\<lambda>s. map_option (\<lambda>v. v ! 0) (y_mem s)) (adapt_trace solve ?a (drop i d) (drop i x)) \<and>
         map Some e' = map Some (take i e) @
           map (\<lambda>s. map_option (\<lambda>v. v ! 0) (e_mem s)) (adapt_trace solve ?a (drop i d) (drop i x))"
      by (simp add: T tk)
    with L S show ?thesis by blast
  qed
qed

text \<open>
  Claim C3 says that \<^verbatim>\<open>run(d, x)\<close> of an affine-projection filter makes, at each step, the
  very shift, estimate, solve and weight update of \<^verbatim>\<open>adapt(d[k], x[k])\<close>.  The loop of \<^verbatim>\<open>run\<close>
  makes the shift and the estimate, but for the update it calls \<^verbatim>\<open>self.learning_rule\<close>, a
  method the class does not define.  On the filter \<open>ap1\<close>, built by
  \<^verbatim>\<open>AdaptiveFilterAP(0.5, 1, [0], order=1, eps=1)\<close>, the call \<^verbatim>\<open>run([1], [[1]])\<close> raises
  \<^verbatim>\<open>AttributeError\<close> with the weights still \<open>[0]\<close>, where \<^verbatim>\<open>adapt(1, [1])\<close> returns and
  leaves \<open>[0.25]\<close>; and on the empty batch \<^verbatim>\<open>run\<close> raises \<^verbatim>\<open>IndexError\<close>, where no call of
  \<^verbatim>\<open>adapt\<close> is made at all.
\<close>

theorem run_AP_differs_from_adapt:
  "fst (run_AP None ap1 [1] [[1]]) = Inl AttributeError \<and>
   w (snd (run_AP None ap1 [1] [[1]])) = [0] \<and>
   fst (adapt_seq solve_small ap1 [1] [[1]]) = Inr () \<and>
   w (snd (adapt_seq solve_small ap1 [1] [[1]])) = [1 / 4] \<and>
   fst (run_AP (Some (ap_learning_rule solve_small)) ap1 [] []) = Inl IndexError \<and>
   fst (adapt_seq solve_small ap1 [] []) = Inr ()"
  by (simp add: run_AP_def rectangular_def run_body_AP_def record_weights_def np_broadcast_def
      update_mem_def shift1_def estimate_def mat_vec_def mat_T_def column_def mat_mul_def
      mat_add_def adapt_AP_def solve_small_def ap1_def Let_def)

lemma ap2_run:
  "run_AP (Some (ap_learning_rule solve_small)) ap2 [1, 2, 3] [[1, 0], [0, 1], [1, 1]] =
     (Inr ([0, 0, 15 / 16], [1, 2, 33 / 16], Some [[0, 0], [1 / 4, 0], [7 / 16, 1 / 2]]),
      ap2\<lparr>w := [7 / 10, 161 / 160], w_history := Some [[0, 0], [1 / 4, 0], [7 / 16, 1 / 2]],
          x_mem := [[1, 0], [1, 1]], d_mem := [3, 2],
          y_mem := Some [15 / 16, 1 / 2], e_mem := Some [33 / 16, 3 / 2]\<rparr>)"
  by (simp add: run_AP_def rectangular_def run_body_AP_def record_weights_def np_broadcast_def
      np_iadd_def ap_learning_rule_def
      update_mem_def shift1_def estimate_def mat_vec_def mat_T_def column_def mat_mul_def
      mat_add_def solve_small_def ap2_def Let_def upt_rec)

text \<open>
  Claim C3 as amended: let the filter's \<^verbatim>\<open>learning_rule\<close> be the delta computation of
  \<^verbatim>\<open>adapt\<close>, \<open>mu \<cdot> x_mem \<cdot> (z \<cdot> e_mem)\<close> for the solution \<open>z\<close> of the regularised system, and
  let the batch be non-empty, of equal lengths, with rows of the filter's length, for a filter
  of the constructor's shape and a window of at least one sample.  Then \<^verbatim>\<open>run(d, x)\<close> raises
  exactly when the calls \<^verbatim>\<open>adapt(d[k], x[k])\<close> in sequence raise, with the same error; it leaves
  the filter in the state those calls leave, but for the fields \<open>n\<close> and \<^verbatim>\<open>w_history\<close> that
  only \<^verbatim>\<open>run\<close> assigns; and when it returns \<open>(y, e, weight_history)\<close>, \<open>y[k]\<close> and \<open>e[k]\<close> are
  \<open>y_mem[0]\<close> and \<open>e_mem[0]\<close> as the \<open>k\<close>-th call of \<^verbatim>\<open>adapt\<close> leaves them.
\<close>

theorem run_AP_as_adapt_calls:
  assumes "ap_shape f" and "0 < order f" and "length d = length x" and "x \<noteq> []"
    and "list_all (\<lambda>r. length r = length (w f)) x"
  shows "snd (adapt_seq solve f d x) =
           (snd (run_AP (Some (ap_learning_rule solve)) f d x))\<lparr>n := n f, w_history := w_history f\<rparr> \<and>
         (\<forall>err. fst (run_AP (Some (ap_learning_rule solve)) f d x) = Inl err \<longleftrightarrow>
                fst (adapt_seq solve f d x) = Inl err) \<and>
         (\<forall>y e hist. fst (run_AP (Some (ap_learning_rule solve)) f d x) = Inr (y, e, hist) \<longrightarrow>
            map Some y = map (\<lambda>s. map_option (\<lambda>v. v ! 0) (y_mem s)) (adapt_trace solve f d x) \<and>
            map Some e = map (\<lambda>s. map_option (\<lambda>v. v ! 0) (e_mem s)) (adapt_trace solve f d x) \<and>
            hist = w_history (snd (run_AP (Some (ap_learning_rule solve)) f d x)))"
proof -
  let ?lr = "Some (ap_learning_rule solve)"
  let ?N = "length x"
  from assms(4) obtain x0 rest where x: "x = x0 # rest" by (cases x) auto
  from assms(5) have rowsx: "\<forall>k<?N. length (x ! k) = length (w f)"
    by (simp add: list_all_length)
  then have x0: "length x0 = length (w f)" by (auto simp: x)
  have rect: "rectangular x"
    using assms(5) by (auto simp: rectangular_def x list_all_iff)
  let ?h = "replicate ?N (replicate (length x0) (0::real))"
  let ?g = "f\<lparr>n := PyInt (int (length x0)), w_history := Some ?h\<rparr>"
  let ?y0 = "replicate ?N (0::real)"
  have g: "ap_shape ?g" "0 < order ?g" "\<forall>k<?N. length (x ! k) = length (w ?g)"
    "w_history ?g = Some ?h" "length ?h = ?N" "\<forall>k<?N. length (?h ! k) = length (w ?g)"
    "length ?y0 = ?N"
    using assms(1,2) rowsx x0 by (simp_all add: ap_shape_def)
  from run_loop_AP_sim[OF g(1,2,3) assms(3) refl g(4,5,6,7,7), where solve = solve and i = 0 and nv = "n f" and hv = "w_history f"]
  obtain r g' y' e' where
    loop: "run_loop_AP ?lr d x [0..<?N] (?g, ?y0, ?y0) = (r, g', y', e')" and
    seq: "adapt_seq solve f d x = (r, g'\<lparr>n := n f, w_history := w_history f\<rparr>)" and
    ye: "r = Inr () \<longrightarrow>
           map Some y' = map (\<lambda>s. map_option (\<lambda>v. v ! 0) (y_mem s)) (adapt_trace solve f d x) \<and>
           map Some e' = map (\<lambda>s. map_option (\<lambda>v. v ! 0) (e_mem s)) (adapt_trace solve f d x)"
    by auto
  have run: "run_AP ?lr f d x =
               (case r of Inl err \<Rightarrow> (Inl err, g') | Inr u \<Rightarrow> (Inr (y', e', w_history g'), g'))"
    using assms(3) rect loop by (simp add: run_AP_def x Let_def split: sum.splits)
  show ?thesis
  proof (cases r)
    case (Inl err)
    with run seq show ?thesis by simp
  next
    case (Inr u)
    with run seq ye show ?thesis by simp
  qed
qed

theorem run_AP_as_adapt_calls_witness:
  "ap_shape ap2 \<and> 0 < order ap2 \<and>
   length [1, 2, 3 :: real] = length [[1, 0], [0, 1], [1, 1 :: real]] \<and>
   [[1, 0], [0, 1], [1, 1 :: real]] \<noteq> [] \<and>
   list_all (\<lambda>r. length r = length (w ap2)) [[1, 0], [0, 1], [1, 1 :: real]] \<and>
   fst (run_AP (Some (ap_learning_rule solve_small)) ap2 [1, 2, 3] [[1, 0], [0, 1], [1, 1]])
     = Inr ([0, 0, 15 / 16], [1, 2, 33 / 16], Some [[0, 0], [1 / 4, 0], [7 / 16, 1 / 2]]) \<and>
   fst (adapt_seq solve_small ap2 [1, 2, 3] [[1, 0], [0, 1], [1, 1]]) = Inr () \<and>
   snd (adapt_seq solve_small ap2 [1, 2, 3] [[1, 0], [0, 1], [1, 1]]) =
     ap2\<lparr>w := [7 / 10, 161 / 160], x_mem := [[1, 0], [1, 1]], d_mem := [3, 2],
         y_mem := Some [15 / 16, 1 / 2], e_mem := Some [33 / 16, 3 / 2]\<rparr> \<and>
   map (\<lambda>s. map_option (\<lambda>v. v ! 0) (y_mem s))
     (adapt_trace solve_small ap2 [1, 2, 3] [[1, 0], [0, 1], [1, 1]]) = [Some 0, Some 0, Some (15 / 16)] \<and>
   map (\<lambda>s. map_option (\<lambda>v. v ! 0) (e_mem s))
     (adapt_trace solve_small ap2 [1, 2, 3] [[1, 0], [0, 1], [1, 1]]) = [Some 1, Some 2, Some (33 / 16)]"
proof -
  let ?d = "[1, 2, 3 :: real]" and ?x = "[[1, 0], [0, 1], [1, 1 :: real]]"
  let ?run = "run_AP (Some (ap_learning_rule solve_small)) ap2 ?d ?x"
  have a: "ap_shape ap2" "0 < order ap2" "length ?d = length ?x" "?x \<noteq> []"
    "list_all (\<lambda>r. length r = length (w ap2)) ?x"
    by (simp_all add: ap_shape_def ap2_def)
  note r = run_AP_as_adapt_calls [OF a, where solve = solve_small]
  have f: "fst ?run = Inr ([0, 0, 15 / 16], [1, 2, 33 / 16], Some [[0, 0], [1 / 4, 0], [7 / 16, 1 / 2]])"
    by (simp add: ap2_run)
  from r have s: "snd (adapt_seq solve_small ap2 ?d ?x) = (snd ?run)\<lparr>n := n ap2, w_history := w_history ap2\<rparr>"
    by (rule conjunct1)
  then have s': "snd (adapt_seq solve_small ap2 ?d ?x) =
     ap2\<lparr>w := [7 / 10, 161 / 160], x_mem := [[1, 0], [1, 1]], d_mem := [3, 2],
         y_mem := Some [15 / 16, 1 / 2], e_mem := Some [33 / 16, 3 / 2]\<rparr>"
    unfolding ap2_run by (simp add: ap2_def)
  from r f have ok: "fst (adapt_seq solve_small ap2 ?d ?x) = Inr ()"
    by (cases "fst (adapt_seq solve_small ap2 ?d ?x)") auto
  from r f have
    "map Some [0, 0, 15 / 16 :: real] =
       map (\<lambda>s. map_option (\<lambda>v. v ! 0) (y_mem s)) (adapt_trace solve_small ap2 ?d ?x)"
    "map Some [1, 2, 33 / 16 :: real] =
       map (\<lambda>s. map_option (\<lambda>v. v ! 0) (e_mem s)) (adapt_trace solve_small ap2 ?d ?x)"
    by blast+
  then have t:
    "map (\<lambda>s. map_option (\<lambda>v. v ! 0) (y_mem s)) (adapt_trace solve_small ap2 ?d ?x)
       = [Some 0, Some 0, Some (15 / 16)]"
    "map (\<lambda>s. map_option (\<lambda>v. v ! 0) (e_mem s)) (adapt_trace solve_small ap2 ?d ?x)
       = [Some 1, Some 2, Some (33 / 16)]"
    by simp_all
  from a f ok s' t show ?thesis by (intro conjI)
qed

end
